theory Spec2Isabelle
  imports Main
begin

section \<open>JavaScript values\<close>

text \<open>
  Rows, payloads and the in-memory assignment are untyped JavaScript objects at run time
  (the TypeScript annotations are erased), so they are modelled as values of one
  datatype. An object is the ordered list of its properties. Numbers are restricted to
  integers (identifiers, points, file counts) of magnitude below \<open>10^21\<close>, which string
  conversion writes in plain decimal. A string is the list of its code units; only code
  units below 256 are represented.
\<close>

datatype json =
    JUndefined
  | JNull
  | JBool bool
  | JNum int
  | JStr string
  | JArr "json list"
  | JObj "(string \<times> json) list"

type_synonym row = "(string \<times> json) list"

text \<open>Truthiness, as tested by \<^verbatim>\<open>!x\<close> and \<^verbatim>\<open>x || y\<close>.\<close>

fun truthy :: "json \<Rightarrow> bool" where
  "truthy JUndefined = False"
| "truthy JNull = False"
| "truthy (JBool b) = b"
| "truthy (JNum n) = (n \<noteq> 0)"
| "truthy (JStr s) = (s \<noteq> [])"
| "truthy (JArr xs) = True"
| "truthy (JObj kvs) = True"

definition orElse :: "json \<Rightarrow> json \<Rightarrow> json" where
  "orElse a b = (if truthy a then a else b)"

text \<open>
  Property read \<^verbatim>\<open>x.k\<close> on a value that is neither null nor undefined: the property of
  an object, undefined when it has none of that name. (None of the names read by the
  program is a built-in property of a string, number or array.)
\<close>

fun getProp :: "json \<Rightarrow> string \<Rightarrow> json" where
  "getProp (JObj kvs) k = (case map_of kvs k of Some v \<Rightarrow> v | None \<Rightarrow> JUndefined)"
| "getProp v k = JUndefined"

text \<open>
  Property write \<^verbatim>\<open>x.k = v\<close>: an existing property keeps its position, a new one is
  added last.
\<close>

fun assign :: "string \<Rightarrow> json \<Rightarrow> row \<Rightarrow> row" where
  "assign k v [] = [(k, v)]"
| "assign k v ((k', v') # kvs) = (if k' = k then (k, v) # kvs else (k', v') # assign k v kvs)"

text \<open>The program writes properties of objects only; other values are left as they are.\<close>

fun setProp :: "json \<Rightarrow> string \<Rightarrow> json \<Rightarrow> json" where
  "setProp (JObj kvs) k v = JObj (assign k v kvs)"
| "setProp x k v = x"

text \<open>String conversion, as performed by a template literal \<^verbatim>\<open>`${x}`\<close>.\<close>

definition digit :: "nat \<Rightarrow> char" where
  "digit n = char_of (48 + n)"

fun digits :: "nat \<Rightarrow> string" where
  "digits n = (if n < 10 then [digit n] else digits (n div 10) @ [digit (n mod 10)])"

declare digits.simps [simp del]

fun join :: "string \<Rightarrow> string list \<Rightarrow> string" where
  "join sep [] = []"
| "join sep [s] = s"
| "join sep (s # t # ss) = s @ sep @ join sep (t # ss)"

fun toString :: "json \<Rightarrow> string" where
  "toString JUndefined = ''undefined''"
| "toString JNull = ''null''"
| "toString (JBool b) = (if b then ''true'' else ''false'')"
| "toString (JNum n) = (if n < 0 then CHR ''-'' # digits (nat (- n)) else digits (nat n))"
| "toString (JStr s) = s"
| "toString (JArr xs) =
     join '','' (map (\<lambda>x. if x = JUndefined \<or> x = JNull then [] else toString x) xs)"
| "toString (JObj kvs) = ''[object Object]''"

section \<open>Characters and strings\<close>

definition isUpper :: "char \<Rightarrow> bool" where
  "isUpper c = (65 \<le> (of_char c :: nat) \<and> (of_char c :: nat) \<le> 90)"

definition isLower :: "char \<Rightarrow> bool" where
  "isLower c = (97 \<le> (of_char c :: nat) \<and> (of_char c :: nat) \<le> 122)"

definition isDigit :: "char \<Rightarrow> bool" where
  "isDigit c = (48 \<le> (of_char c :: nat) \<and> (of_char c :: nat) \<le> 57)"

definition toUpper :: "char \<Rightarrow> char" where
  "toUpper c = (if isLower c then char_of ((of_char c :: nat) - 32) else c)"

definition toLower :: "char \<Rightarrow> char" where
  "toLower c = (if isUpper c then char_of ((of_char c :: nat) + 32) else c)"

text \<open>
  \<^verbatim>\<open>String.prototype.toUpperCase\<close>, on the ASCII range: the class code it is applied to
  has passed the schema's pattern, which admits ASCII letters and digits only.
\<close>

definition toUpperCase :: "string \<Rightarrow> string" where
  "toUpperCase s = map toUpper s"

text \<open>\<^verbatim>\<open>String.prototype.trim\<close>: white space and line terminators below code unit 256.\<close>

definition isSpace :: "char \<Rightarrow> bool" where
  "isSpace c = ((of_char c :: nat) \<in> {9, 10, 11, 12, 13, 32, 160})"

definition trim :: "string \<Rightarrow> string" where
  "trim s = rev (dropWhile isSpace (rev (dropWhile isSpace s)))"

section \<open>Naming transform\<close>

text \<open>
  Modelled from the spec: the module \<^verbatim>\<open>@/lib/caseConversion\<close>, which exports
  \<^verbatim>\<open>transformToCamelCase\<close> and \<^verbatim>\<open>transformToSnakeCase\<close>, is imported by the pages but
  is not among the sources. The spec (4.1) describes a mapping between snake-cased
  persisted keys and camel-cased canonical keys, applied recursively to nested mappings
  and sequences, never to scalar string contents, dropping no data and preserving order.
  A key is converted to camel case by replacing every underscore that is followed by a
  lower-case letter with that letter in upper case, and to snake case by replacing every
  upper-case letter with an underscore and the letter in lower case; any other key
  passes through unchanged.
\<close>

fun toCamelCase :: "string \<Rightarrow> string" where
  "toCamelCase (c # d # cs) =
     (if c = CHR ''_'' \<and> isLower d then toUpper d # toCamelCase cs
      else c # toCamelCase (d # cs))"
| "toCamelCase cs = cs"

fun toSnakeCase :: "string \<Rightarrow> string" where
  "toSnakeCase [] = []"
| "toSnakeCase (c # cs) =
     (if isUpper c then CHR ''_'' # toLower c # toSnakeCase cs else c # toSnakeCase cs)"

primrec transformToCamelCase :: "json \<Rightarrow> json" where
  "transformToCamelCase JUndefined = JUndefined"
| "transformToCamelCase JNull = JNull"
| "transformToCamelCase (JBool b) = JBool b"
| "transformToCamelCase (JNum n) = JNum n"
| "transformToCamelCase (JStr s) = JStr s"
| "transformToCamelCase (JArr xs) = JArr (map transformToCamelCase xs)"
| "transformToCamelCase (JObj kvs) =
     JObj (map (map_prod toCamelCase transformToCamelCase) kvs)"

primrec transformToSnakeCase :: "json \<Rightarrow> json" where
  "transformToSnakeCase JUndefined = JUndefined"
| "transformToSnakeCase JNull = JNull"
| "transformToSnakeCase (JBool b) = JBool b"
| "transformToSnakeCase (JNum n) = JNum n"
| "transformToSnakeCase (JStr s) = JStr s"
| "transformToSnakeCase (JArr xs) = JArr (map transformToSnakeCase xs)"
| "transformToSnakeCase (JObj kvs) =
     JObj (map (map_prod toSnakeCase transformToSnakeCase) kvs)"

text \<open>
  A canonical key is camel-cased: it has no underscore. A persisted key is snake-cased:
  it has no upper-case letter. A record is canonical (persisted) when every key in it,
  at any depth, is.
\<close>

definition canonicalKey :: "string \<Rightarrow> bool" where
  "canonicalKey k = (CHR ''_'' \<notin> set k)"

definition persistedKey :: "string \<Rightarrow> bool" where
  "persistedKey k = list_all (\<lambda>c. \<not> isUpper c) k"

primrec allKeys :: "(string \<Rightarrow> bool) \<Rightarrow> json \<Rightarrow> bool" where
  "allKeys P JUndefined = True"
| "allKeys P JNull = True"
| "allKeys P (JBool b) = True"
| "allKeys P (JNum n) = True"
| "allKeys P (JStr s) = True"
| "allKeys P (JArr xs) = list_all (allKeys P) xs"
| "allKeys P (JObj kvs) = list_all (pred_prod P (allKeys P)) kvs"

definition canonical :: "json \<Rightarrow> bool" where
  "canonical x = allKeys canonicalKey x"

definition persisted :: "json \<Rightarrow> bool" where
  "persisted x = allKeys persistedKey x"

section \<open>Persistence boundary\<close>

text \<open>The four shapes of query the program sends through the client.\<close>

datatype request =
    SelectSingle string string json
    \<comment> \<open>\<^verbatim>\<open>from(t).select('*').eq(c, v).single()\<close>\<close>
  | SelectOrdered string string json string bool
    \<comment> \<open>\<^verbatim>\<open>from(t).select('*').eq(c, v).order(o, { ascending })\<close>\<close>
  | InsertSingle string json
    \<comment> \<open>\<^verbatim>\<open>from(t).insert(payload).select().single()\<close>\<close>
  | UpdateSingle string json string json
    \<comment> \<open>\<^verbatim>\<open>from(t).update(payload).eq(c, v).select().single()\<close>\<close>

datatype js_error = Error (message: string)

text \<open>
  The awaited \<^verbatim>\<open>{ data, error }\<close>: either part may be null. A query ending in
  \<^verbatim>\<open>single()\<close> yields one row, any other a list of rows.
\<close>

record 'a response =
  data :: "'a option"
  error :: "js_error option"

record supabase =
  single :: "request \<Rightarrow> row response"
  many :: "request \<Rightarrow> row list response"

text \<open>A successful and a failed answer.\<close>

definition ok :: "'a \<Rightarrow> 'a response" where
  "ok x = \<lparr> data = Some x, error = None \<rparr>"

definition failed :: "string \<Rightarrow> 'a response" where
  "failed m = \<lparr> data = None, error = Some (Error m) \<rparr>"

text \<open>A client that gives the same answer to every query of a kind.\<close>

definition answers :: "row response \<Rightarrow> row list response \<Rightarrow> supabase" where
  "answers r rs = \<lparr> single = (\<lambda>q. r), many = (\<lambda>q. rs) \<rparr>"

text \<open>\<^verbatim>\<open>error.message || fallback\<close>\<close>

definition messageOr :: "js_error \<Rightarrow> string \<Rightarrow> string" where
  "messageOr e fallback = (if message e \<noteq> [] then message e else fallback)"

definition nullable :: "row option \<Rightarrow> json" where
  "nullable d = (case d of None \<Rightarrow> JNull | Some r \<Rightarrow> JObj r)"

text \<open>
  What a handler does to the outside, in the order it does it: queries sent, notices
  shown, navigation, and calls of the listeners handed to a dialog by its parent.
\<close>

datatype effect =
    Request request
  | ToastError string
  | ToastSuccess string
  | Navigate string
  | AssignmentUpdated json
  | ClassUpdated json
  | OpenChange bool

text \<open>The table a query writes to, if it writes.\<close>

fun writes :: "request \<Rightarrow> string option" where
  "writes (SelectSingle t c v) = None"
| "writes (SelectOrdered t c v oc asc) = None"
| "writes (InsertSingle t p) = Some t"
| "writes (UpdateSingle t p c v) = Some t"

fun requests :: "effect list \<Rightarrow> request list" where
  "requests [] = []"
| "requests (Request q # es) = q # requests es"
| "requests (e # es) = requests es"

text \<open>
  Modelled from the spec: the record store behind the client is external. By the spec
  (4.3, 6) an update is a partial update of the row with the given identifier: the
  fields named in the payload are replaced, and the updated row is returned; an insert
  creates a row that holds the payload's fields together with the identifier and the
  creation time assigned by the store.
\<close>

definition patchRow :: "json \<Rightarrow> row \<Rightarrow> row" where
  "patchRow payload r =
     (case payload of JObj kvs \<Rightarrow> foldl (\<lambda>acc (k, v). assign k v acc) r kvs | _ \<Rightarrow> r)"

definition insertRow :: "json \<Rightarrow> json \<Rightarrow> json \<Rightarrow> row" where
  "insertRow newId createdAt payload =
     patchRow payload [(''id'', newId), (''created_at'', createdAt)]"

section \<open>Assignment page\<close>

record SubmissionBatch =
  id' :: json
  name :: json
  uploadedAt :: json
  status :: json
  fileCount :: json

record page =
  loading :: bool
  assignment :: json
  submissions :: "SubmissionBatch list"
  refreshing :: bool
  showUploadForm :: bool

text \<open>
  The object literal built from a camel-cased submission, written out twice in the
  source: in the callback of \<^verbatim>\<open>fetchAssignmentData\<close> and in \<^verbatim>\<open>handleSubmitFiles\<close>.
\<close>

definition toBatch :: "json \<Rightarrow> SubmissionBatch" where
  "toBatch s =
     \<lparr> id' = getProp s ''id'',
       name = orElse (getProp s ''batchName'') (JStr (''Batch '' @ toString (getProp s ''id''))),
       uploadedAt = getProp s ''createdAt'',
       status = getProp s ''status'',
       fileCount = orElse (getProp s ''fileCount'') (JNum 0) \<rparr>"

text \<open>The \<^verbatim>\<open>catch\<close> and \<^verbatim>\<open>finally\<close> blocks of \<^verbatim>\<open>fetchAssignmentData\<close>.\<close>

definition fetchFailed :: "string \<Rightarrow> js_error \<Rightarrow> page \<Rightarrow> effect list \<Rightarrow> page \<times> effect list" where
  "fetchFailed classId e st done =
     (st\<lparr>loading := False\<rparr>,
      done @ [ToastError (messageOr e ''Failed to load assignment data'')]
        @ (if message e = ''Assignment not found''
           then [Navigate (''/dashboard/classes/'' @ classId)] else []))"

text \<open>The default dates written into an assignment that lacks one of them.\<close>

definition withDates :: "string \<Rightarrow> string \<Rightarrow> json \<Rightarrow> json" where
  "withDates now1 now2 t =
     (if \<not> truthy (getProp t ''createdAt'') \<or> \<not> truthy (getProp t ''updatedAt'')
      then setProp (setProp t ''createdAt'' (JStr now1)) ''updatedAt'' (JStr now2)
      else t)"

definition assignmentQuery :: "string \<Rightarrow> request" where
  "assignmentQuery assignmentId = SelectSingle ''assignments'' ''id'' (JStr assignmentId)"

definition submissionsQuery :: "string \<Rightarrow> request" where
  "submissionsQuery assignmentId =
     SelectOrdered ''submissions'' ''assignment_id'' (JStr assignmentId) ''created_at'' False"

text \<open>
  \<^verbatim>\<open>now1\<close> and \<^verbatim>\<open>now2\<close> are the two readings of the clock
  (\<^verbatim>\<open>new Date().toISOString()\<close>) in the branch for missing dates.
\<close>

definition fetchAssignmentData ::
  "supabase \<Rightarrow> string \<Rightarrow> string \<Rightarrow> string \<Rightarrow> string \<Rightarrow> page \<Rightarrow> page \<times> effect list" where
  "fetchAssignmentData sb classId assignmentId now1 now2 st =
     (let q1 = assignmentQuery assignmentId; r1 = single sb q1 in
      case error r1 of
        Some e \<Rightarrow> fetchFailed classId e st [Request q1]
      | None \<Rightarrow>
         (case data r1 of
            None \<Rightarrow> fetchFailed classId (Error ''Assignment not found'') st [Request q1]
          | Some d \<Rightarrow>
             (let transformedAssignment = withDates now1 now2 (transformToCamelCase (JObj d));
                  st1 = st\<lparr>assignment := transformedAssignment\<rparr>;
                  q2 = submissionsQuery assignmentId;
                  r2 = many sb q2 in
              case error r2 of
                Some e \<Rightarrow> fetchFailed classId e st1 [Request q1, Request q2]
              | None \<Rightarrow>
                 (let submissionsData = (case data r2 of None \<Rightarrow> [] | Some rows \<Rightarrow> rows);
                      transformedSubmissions =
                        map (\<lambda>submission. toBatch (transformToCamelCase (JObj submission)))
                          submissionsData in
                  (st1\<lparr>submissions := transformedSubmissions, loading := False\<rparr>,
                   [Request q1, Request q2])))))"

definition handleRefresh ::
  "supabase \<Rightarrow> string \<Rightarrow> string \<Rightarrow> string \<Rightarrow> string \<Rightarrow> page \<Rightarrow> page \<times> effect list" where
  "handleRefresh sb classId assignmentId now1 now2 st =
     (let (st', effs) =
            fetchAssignmentData sb classId assignmentId now1 now2 (st\<lparr>refreshing := True\<rparr>)
      in (st'\<lparr>refreshing := False\<rparr>, effs))"

definition submissionData :: "string \<Rightarrow> 'f list \<Rightarrow> string \<Rightarrow> json" where
  "submissionData assignmentId files batchName =
     transformToSnakeCase
       (JObj [(''assignment_id'', JStr assignmentId),
              (''batch_name'', JStr batchName),
              (''file_count'', JNum (int (length files))),
              (''status'', JStr ''grading'')])"

text \<open>
  When the insert answers with neither an error nor a row, the transform hands back
  null and reading its \<^verbatim>\<open>id\<close> throws a TypeError (the message is the one of V8), which
  the \<^verbatim>\<open>catch\<close> block reports like any other failure.
\<close>

definition handleSubmitFiles ::
  "supabase \<Rightarrow> string \<Rightarrow> 'f list \<Rightarrow> string \<Rightarrow> page \<Rightarrow> page \<times> effect list" where
  "handleSubmitFiles sb assignmentId files batchName st =
     (let q = InsertSingle ''submissions'' (submissionData assignmentId files batchName);
          r = single sb q in
      case error r of
        Some e \<Rightarrow> (st, [Request q, ToastError (messageOr e ''Failed to upload files'')])
      | None \<Rightarrow>
         (case data r of
            None \<Rightarrow>
              (st, [Request q,
                    ToastError (messageOr
                      (Error ''Cannot read properties of null (reading 'id')'')
                      ''Failed to upload files'')])
          | Some submission \<Rightarrow>
             (let newBatch = toBatch (transformToCamelCase (JObj submission)) in
              (st\<lparr>submissions := newBatch # submissions st, showUploadForm := False\<rparr>,
               [Request q, ToastSuccess ''Files uploaded successfully'']))))"

definition handleAssignmentUpdated :: "json \<Rightarrow> page \<Rightarrow> page" where
  "handleAssignmentUpdated updatedAssignment st =
     st\<lparr>assignment := transformToCamelCase updatedAssignment\<rparr>"

section \<open>Grading criteria dialog\<close>

definition criteriaData :: "string \<Rightarrow> string \<Rightarrow> json" where
  "criteriaData gradingCriteria now =
     transformToSnakeCase
       (JObj [(''grading_criteria'', JStr gradingCriteria), (''updated_at'', JStr now)])"

definition criteriaUpdate :: "json \<Rightarrow> string \<Rightarrow> string \<Rightarrow> request" where
  "criteriaUpdate assignmentRecord gradingCriteria now =
     UpdateSingle ''assignments'' (criteriaData gradingCriteria now)
       ''id'' (getProp assignmentRecord ''id'')"

text \<open>
  \<^verbatim>\<open>handleSubmit\<close> of \<^verbatim>\<open>EditGradingCriteriaDialog\<close>. The result is the dialog's
  \<^verbatim>\<open>loading\<close> flag when the handler is done, and what it did.
\<close>

definition EditGradingCriteriaDialog_handleSubmit ::
  "supabase \<Rightarrow> json \<Rightarrow> string \<Rightarrow> string \<Rightarrow> bool \<times> effect list" where
  "EditGradingCriteriaDialog_handleSubmit sb assignmentRecord gradingCriteria now =
     (let q = criteriaUpdate assignmentRecord gradingCriteria now; r = single sb q in
      case error r of
        Some e \<Rightarrow>
          (False, [Request q, ToastError (messageOr e ''Failed to update grading criteria'')])
      | None \<Rightarrow>
          (False, [Request q,
                   AssignmentUpdated (transformToCamelCase (nullable (data r))),
                   OpenChange False,
                   ToastSuccess ''Grading criteria updated successfully'']))"

text \<open>
  The page hands \<^verbatim>\<open>handleAssignmentUpdated\<close> to the dialog as its
  \<^verbatim>\<open>onAssignmentUpdated\<close> listener; nothing else the dialog does reaches the page's state.
\<close>

fun deliver :: "effect list \<Rightarrow> page \<Rightarrow> page" where
  "deliver [] st = st"
| "deliver (AssignmentUpdated a # es) st = deliver es (handleAssignmentUpdated a st)"
| "deliver (e # es) st = deliver es st"

definition editCriteria :: "supabase \<Rightarrow> string \<Rightarrow> string \<Rightarrow> page \<Rightarrow> page \<times> effect list" where
  "editCriteria sb gradingCriteria now st =
     (let (l, effs) = EditGradingCriteriaDialog_handleSubmit sb (assignment st) gradingCriteria now
      in (deliver effs st, effs))"

section \<open>Class dialog\<close>

record FormData =
  title :: string
  description :: string
  department :: string
  code :: string
  schedule :: string
  term' :: string
  status' :: string

definition departmentOptions :: "string list" where
  "departmentOptions =
     [''Language'', ''Computer Science'', ''Mathematics'', ''Physics'', ''Chemistry'',
      ''Biology'', ''Engineering'']"

text \<open>
  The schema library runs the checks of a string in the order they are declared; a
  failed check adds its message and the later ones still run; \<^verbatim>\<open>trim\<close> replaces the
  value for the checks after it and for the result.
\<close>

datatype check =
    Min nat string
  | Max nat string
  | Regex "string \<Rightarrow> bool" string
  | Trim

datatype reason = Message string | InvalidEnumValue "string list" string

type_synonym issue = "string \<times> reason"

fun zString :: "check list \<Rightarrow> string \<Rightarrow> reason list \<times> string" where
  "zString [] s = ([], s)"
| "zString (Min n m # cs) s =
     (let (rs, v) = zString cs s in ((if length s < n then [Message m] else []) @ rs, v))"
| "zString (Max n m # cs) s =
     (let (rs, v) = zString cs s in ((if n < length s then [Message m] else []) @ rs, v))"
| "zString (Regex p m # cs) s =
     (let (rs, v) = zString cs s in ((if p s then [] else [Message m]) @ rs, v))"
| "zString (Trim # cs) s = zString cs (trim s)"

definition zEnum :: "string list \<Rightarrow> string \<Rightarrow> reason list" where
  "zEnum options v = (if v \<in> set options then [] else [InvalidEnumValue options v])"

text \<open>\<^verbatim>\<open>/^[A-Z0-9]+$/i\<close>\<close>

definition alphanumeric :: "string \<Rightarrow> bool" where
  "alphanumeric s = (s \<noteq> [] \<and> list_all (\<lambda>c. isUpper c \<or> isLower c \<or> isDigit c) s)"

definition editClassSchema :: "FormData \<Rightarrow> issue list + FormData" where
  "editClassSchema raw =
     (let (e1, t) = zString [Min 3 ''Title must be at least 3 characters'',
                             Max 100 ''Title must be less than 100 characters'',
                             Trim] (title raw);
          (e2, d) = zString [Min 10 ''Description must be at least 10 characters'',
                             Max 500 ''Description must be less than 500 characters'',
                             Trim] (description raw);
          e3 = zEnum departmentOptions (department raw);
          (e4, c) = zString [Min 2 ''Class code must be at least 2 characters'',
                             Max 10 ''Class code must be less than 10 characters'',
                             Regex alphanumeric ''Class code must be alphanumeric'',
                             Trim] (code raw);
          (e5, s) = zString [Min 1 ''Schedule is required'', Trim] (schedule raw);
          (e6, m) = zString [Min 1 ''Term is required'', Trim] (term' raw);
          e7 = zEnum [''active'', ''inactive''] (status' raw);
          issues = map (Pair ''title'') e1 @ map (Pair ''description'') e2
                 @ map (Pair ''department'') e3 @ map (Pair ''code'') e4
                 @ map (Pair ''schedule'') e5 @ map (Pair ''term'') e6
                 @ map (Pair ''status'') e7
      in if issues = []
         then Inr \<lparr> title = t, description = d, department = department raw, code = c,
                    schedule = s, term' = m, status' = status' raw \<rparr>
         else Inl issues)"

definition classData :: "FormData \<Rightarrow> string \<Rightarrow> json" where
  "classData formData now =
     JObj [(''title'', JStr (title formData)),
           (''description'', JStr (description formData)),
           (''department'', JStr (department formData)),
           (''code'', JStr (toUpperCase (code formData))),
           (''schedule'', JStr (schedule formData)),
           (''term'', JStr (term' formData)),
           (''status'', JStr (status' formData)),
           (''updated_at'', JStr now)]"

definition classUpdate :: "json \<Rightarrow> FormData \<Rightarrow> string \<Rightarrow> request" where
  "classUpdate classId formData now =
     UpdateSingle ''classes'' (classData formData now) ''id'' classId"

text \<open>
  \<^verbatim>\<open>handleSubmit\<close> of \<^verbatim>\<open>EditClassDialog\<close>; \<^verbatim>\<open>classId\<close> is \<^verbatim>\<open>classData.id\<close>. The result
  is the dialog's \<^verbatim>\<open>loading\<close> flag when the handler is done, and what it did.
\<close>

definition EditClassDialog_handleSubmit ::
  "supabase \<Rightarrow> json \<Rightarrow> string \<Rightarrow> FormData \<Rightarrow> bool \<times> effect list" where
  "EditClassDialog_handleSubmit sb classId now formData =
     (let q = classUpdate classId formData now; r = single sb q in
      case error r of
        Some e \<Rightarrow> (False, [Request q, ToastError (messageOr e ''Failed to update class'')])
      | None \<Rightarrow>
          (False, [Request q,
                   ClassUpdated (nullable (data r)),
                   ToastSuccess ''Class updated successfully!'',
                   OpenChange False]))"

text \<open>
  \<^verbatim>\<open>form.handleSubmit(handleSubmit)\<close>: the form library runs the schema on the form's
  values and calls the handler with the parsed values only when there is no issue;
  otherwise it records, for display, the first issue of each field. The state is the
  dialog's \<^verbatim>\<open>loading\<close> flag and the issues shown.
\<close>

fun keepFirst :: "string list \<Rightarrow> issue list \<Rightarrow> issue list" where
  "keepFirst seen [] = []"
| "keepFirst seen ((field, r) # rest) =
     (if field \<in> set seen then keepFirst seen rest
      else (field, r) # keepFirst (field # seen) rest)"

definition firstPerField :: "issue list \<Rightarrow> issue list" where
  "firstPerField issues = keepFirst [] issues"

definition form_handleSubmit ::
  "supabase \<Rightarrow> json \<Rightarrow> string \<Rightarrow> FormData \<Rightarrow> bool \<times> issue list
     \<Rightarrow> (bool \<times> issue list) \<times> effect list" where
  "form_handleSubmit sb classId now raw st =
     (case editClassSchema raw of
        Inl issues \<Rightarrow> ((fst st, firstPerField issues), [])
      | Inr formData \<Rightarrow>
          (let (l, effs) = EditClassDialog_handleSubmit sb classId now formData
           in ((l, []), effs)))"

section \<open>General assignment edit\<close>

text \<open>
  Modelled from the spec: the general assignment edit (\<^verbatim>\<open>EditAssignmentDialog\<close>, which
  the page mounts with \<^verbatim>\<open>handleAssignmentUpdated\<close> as its listener) is not among the
  sources. By the spec (3, 4.3) it is the record update of an assignment: the patch holds
  the assignment's title, description, type and points, that is the fields of the record
  other than the identifier and the timestamps, which the store assigns, and the grading
  criteria, which by the invariant of 3 are not edited through this path. The patch is
  validated (the points are a positive integer; a violation names the field), normalised
  (strings trimmed), converted to persisted form and submitted as a partial update scoped
  to the identifier, with the update time refreshed in the same update; the row read
  back is returned in canonical form, a failure of the boundary as an error.
\<close>

record AssignmentPatch =
  patchTitle :: string
  patchDescription :: string
  patchType :: string
  patchPoints :: int

datatype mutation_error = ValidationError "string list" | PersistenceError js_error

definition assignmentData :: "AssignmentPatch \<Rightarrow> string \<Rightarrow> json" where
  "assignmentData patch now =
     transformToSnakeCase
       (JObj [(''title'', JStr (trim (patchTitle patch))),
              (''description'', JStr (trim (patchDescription patch))),
              (''type'', JStr (patchType patch)),
              (''points'', JNum (patchPoints patch)),
              (''updatedAt'', JStr now)])"

definition updateAssignment ::
  "supabase \<Rightarrow> json \<Rightarrow> AssignmentPatch \<Rightarrow> string \<Rightarrow> (mutation_error + json) \<times> effect list" where
  "updateAssignment sb assignmentId patch now =
     (if patchPoints patch \<le> 0 then (Inl (ValidationError [''points'']), [])
      else
        (let q = UpdateSingle ''assignments'' (assignmentData patch now) ''id'' assignmentId;
             r = single sb q in
         case error r of
           Some e \<Rightarrow> (Inl (PersistenceError e), [Request q])
         | None \<Rightarrow> (Inr (transformToCamelCase (nullable (data r))), [Request q])))"

section \<open>Example inputs\<close>

definition assignmentRow :: row where
  "assignmentRow =
     [(''id'', JStr ''a1''), (''title'', JStr ''Essay 2''), (''type'', JStr ''text''),
      (''points'', JNum 20), (''grading_criteria'', JStr ''Clarity''),
      (''created_at'', JStr ''2025-03-01T09:00:00+00:00''),
      (''updated_at'', JStr ''2025-03-05T09:00:00+00:00'')]"

definition batchRowA :: row where
  "batchRowA =
     [(''id'', JStr ''a''), (''assignment_id'', JStr ''a1''), (''batch_name'', JStr ''Section A''),
      (''file_count'', JNum 4), (''status'', JStr ''completed''),
      (''created_at'', JStr ''2025-03-02T10:00:00+00:00'')]"

definition batchRowB :: row where
  "batchRowB =
     [(''id'', JStr ''b''), (''assignment_id'', JStr ''a1''), (''batch_name'', JStr ''Section B''),
      (''file_count'', JNum 2), (''status'', JStr ''grading''),
      (''created_at'', JStr ''2025-03-02T10:00:00+00:00'')]"

definition batchRowC :: row where
  "batchRowC =
     [(''id'', JStr ''c''), (''assignment_id'', JStr ''a1''), (''batch_name'', JStr []),
      (''file_count'', JNum 1), (''status'', JStr ''failed''),
      (''created_at'', JStr ''2025-03-01T08:00:00+00:00'')]"

text \<open>A page showing an earlier state of the assignment and one batch.\<close>

definition committedView :: page where
  "committedView =
     \<lparr> loading = False,
       assignment =
         JObj [(''id'', JStr ''a1''), (''title'', JStr ''Essay 1''), (''type'', JStr ''text''),
               (''points'', JNum 10), (''gradingCriteria'', JStr ''Clarity''),
               (''createdAt'', JStr ''2025-03-01T09:00:00+00:00''),
               (''updatedAt'', JStr ''2025-03-01T09:00:00+00:00'')],
       submissions =
         [\<lparr> id' = JStr ''c'', name = JStr ''Batch c'',
             uploadedAt = JStr ''2025-03-01T08:00:00+00:00'',
             status = JStr ''failed'', fileCount = JNum 1 \<rparr>],
       refreshing = False,
       showUploadForm = True \<rparr>"

definition classForm :: FormData where
  "classForm =
     \<lparr> title = ''Intro to Programming'', description = ''Variables, loops and functions'',
       department = ''Computer Science'', code = ''cs101'', schedule = ''Mon 2-3 PM'',
       term' = ''Spring 2025'', status' = ''active'' \<rparr>"

definition assignmentPatch :: AssignmentPatch where
  "assignmentPatch =
     \<lparr> patchTitle = '' Essay 3 '', patchDescription = ''Argue a position'',
       patchType = ''text'', patchPoints = 25 \<rparr>"

definition classRow :: row where
  "classRow =
     [(''id'', JStr ''k1''), (''title'', JStr ''Intro to Programming''),
      (''description'', JStr ''Variables and loops''),
      (''department'', JStr ''Computer Science''), (''code'', JStr ''CS100''),
      (''schedule'', JStr ''Mon 2-3 PM''), (''term'', JStr ''Spring 2025''),
      (''status'', JStr ''active''), (''user_id'', JStr ''u1''),
      (''created_at'', JStr ''2025-01-10T09:00:00+00:00''),
      (''updated_at'', JStr ''2025-01-10T09:00:00+00:00'')]"

section \<open>Letters\<close>

lemma of_char_toUpper: "isLower c \<Longrightarrow> (of_char (toUpper c) :: nat) = of_char c - 32"
proof -
  assume l: "isLower c"
  then have "(of_char c :: nat) - 32 < 256" unfolding isLower_def by arith
  then have "((of_char c :: nat) - 32) mod 256 = of_char c - 32" by (rule mod_less)
  then show ?thesis using l by (simp add: toUpper_def of_char_of)
qed

lemma of_char_toLower: "isUpper c \<Longrightarrow> (of_char (toLower c) :: nat) = of_char c + 32"
proof -
  assume u: "isUpper c"
  then have "(of_char c :: nat) + 32 < 256" unfolding isUpper_def by arith
  then have "((of_char c :: nat) + 32) mod 256 = of_char c + 32" by (rule mod_less)
  then show ?thesis using u by (simp add: toLower_def of_char_of)
qed

lemma isLower_toLower: "isUpper c \<Longrightarrow> isLower (toLower c)"
  using of_char_toLower[of c] unfolding isUpper_def isLower_def by arith

lemma isUpper_toUpper: "isLower c \<Longrightarrow> isUpper (toUpper c)"
  using of_char_toUpper[of c] unfolding isUpper_def isLower_def by arith

lemma toUpper_toLower: "isUpper c \<Longrightarrow> toUpper (toLower c) = c"
proof -
  assume u: "isUpper c"
  have "toUpper (toLower c) = char_of ((of_char (toLower c) :: nat) - 32)"
    using isLower_toLower[OF u] by (simp add: toUpper_def)
  also have "\<dots> = char_of (of_char c :: nat)"
    using of_char_toLower[OF u] by simp
  finally show ?thesis by simp
qed

lemma toLower_toUpper: "isLower c \<Longrightarrow> toLower (toUpper c) = c"
proof -
  assume l: "isLower c"
  then have ge: "32 \<le> (of_char c :: nat)" by (simp add: isLower_def)
  have "toLower (toUpper c) = char_of ((of_char (toUpper c) :: nat) + 32)"
    using isUpper_toUpper[OF l] by (simp add: toLower_def)
  also have "\<dots> = char_of (of_char c :: nat)"
    using of_char_toUpper[OF l] ge by simp
  finally show ?thesis by simp
qed

lemma upper_not_lower: "isUpper c \<Longrightarrow> \<not> isLower c"
  by (simp add: isUpper_def isLower_def)

lemma underscore_not_letter: "\<not> isUpper (CHR ''_'')" "\<not> isLower (CHR ''_'')"
  by (simp_all add: isUpper_def isLower_def)

section \<open>Keys\<close>

lemma toCamelCase_Cons: "c \<noteq> CHR ''_'' \<Longrightarrow> toCamelCase (c # cs) = c # toCamelCase cs"
  by (cases cs) simp_all

lemma camel_snake_key: "canonicalKey k \<Longrightarrow> toCamelCase (toSnakeCase k) = k"
proof (induction k)
  case Nil
  show ?case by simp
next
  case (Cons c cs)
  then have ih: "toCamelCase (toSnakeCase cs) = cs" and c: "c \<noteq> CHR ''_''"
    by (auto simp: canonicalKey_def)
  show ?case
  proof (cases "isUpper c")
    case True
    then show ?thesis
      using ih by (simp add: isLower_toLower toUpper_toLower)
  next
    case False
    then show ?thesis
      using ih c by (simp add: toCamelCase_Cons)
  qed
qed

lemma snake_camel_key: "persistedKey k \<Longrightarrow> toSnakeCase (toCamelCase k) = k"
proof (induction k rule: toCamelCase.induct)
  case (1 c d cs)
  then show ?case
    by (auto simp: persistedKey_def isUpper_toUpper toLower_toUpper)
qed (simp_all add: persistedKey_def)

lemma toCamelCase_canonical: "canonicalKey k \<Longrightarrow> toCamelCase k = k"
  by (induction k rule: toCamelCase.induct) (auto simp: canonicalKey_def)

lemma toSnakeCase_persisted: "persistedKey k \<Longrightarrow> toSnakeCase k = k"
  by (induction k) (auto simp: persistedKey_def)

lemma toCamelCase_under:
  assumes d: "\<not> isLower d"
  shows "toCamelCase (CHR ''_'' # toCamelCase (d # cs))
         = CHR ''_'' # toCamelCase (toCamelCase (d # cs))"
proof (cases cs)
  case Nil
  then show ?thesis using d by simp
next
  case (Cons e es)
  show ?thesis
  proof (cases "d = CHR ''_'' \<and> isLower e")
    case True
    then have "\<not> isLower (toUpper e)"
      using isUpper_toUpper[of e] upper_not_lower by blast
    then show ?thesis using True Cons by simp
  next
    case False
    then show ?thesis using d Cons by auto
  qed
qed

lemma toCamelCase_idem: "toCamelCase (toCamelCase k) = toCamelCase k"
proof (induction k rule: toCamelCase.induct)
  case (1 c d cs)
  show ?case
  proof (cases "c = CHR ''_'' \<and> isLower d")
    case True
    then have "toUpper d \<noteq> CHR ''_''"
      using isUpper_toUpper[of d] underscore_not_letter by auto
    then show ?thesis using True 1 by (simp add: toCamelCase_Cons)
  next
    case False
    show ?thesis
    proof (cases "c = CHR ''_''")
      case True
      with False have "\<not> isLower d" by simp
      then have "toCamelCase (toCamelCase (c # d # cs)) = c # toCamelCase (toCamelCase (d # cs))"
        using True by (simp add: toCamelCase_under)
      then show ?thesis using True False 1 by simp
    next
      case notUnder: False
      then show ?thesis using False 1 by (simp add: toCamelCase_Cons)
    qed
  qed
qed simp_all

section \<open>Records\<close>

lemma transformToCamelCase_idem:
  "transformToCamelCase (transformToCamelCase x) = transformToCamelCase x"
proof (induction x)
  case (JObj kvs)
  have "map_prod toCamelCase transformToCamelCase (map_prod toCamelCase transformToCamelCase kv)
        = map_prod toCamelCase transformToCamelCase kv" if "kv \<in> set kvs" for kv
  proof (cases kv)
    case (Pair k v)
    then have "transformToCamelCase (transformToCamelCase v) = transformToCamelCase v"
      using that JObj.IH[of kv v] by simp
    then show ?thesis using Pair by (simp add: toCamelCase_idem)
  qed
  then show ?case by simp
qed simp_all

lemma transformToCamelCase_canonical: "canonical x \<Longrightarrow> transformToCamelCase x = x"
  unfolding canonical_def
proof (induction x)
  case (JArr xs)
  then show ?case by (simp add: list_all_iff map_idI)
next
  case (JObj kvs)
  have "map_prod toCamelCase transformToCamelCase kv = kv" if "kv \<in> set kvs" for kv
  proof (cases kv)
    case (Pair k v)
    then have "canonicalKey k" and "allKeys canonicalKey v"
      using that JObj.prems by (auto simp: list_all_iff)
    then show ?thesis
      using that Pair JObj.IH[of kv v] by (simp add: toCamelCase_canonical)
  qed
  then show ?case by (simp add: map_idI)
qed simp_all

lemma transformToSnakeCase_persisted: "persisted x \<Longrightarrow> transformToSnakeCase x = x"
  unfolding persisted_def
proof (induction x)
  case (JArr xs)
  then show ?case by (simp add: list_all_iff map_idI)
next
  case (JObj kvs)
  have "map_prod toSnakeCase transformToSnakeCase kv = kv" if "kv \<in> set kvs" for kv
  proof (cases kv)
    case (Pair k v)
    then have "persistedKey k" and "allKeys persistedKey v"
      using that JObj.prems by (auto simp: list_all_iff)
    then show ?thesis
      using that Pair JObj.IH[of kv v] by (simp add: toSnakeCase_persisted)
  qed
  then show ?case by (simp add: map_idI)
qed simp_all

lemma camel_after_snake: "canonical x \<Longrightarrow> transformToCamelCase (transformToSnakeCase x) = x"
  unfolding canonical_def
proof (induction x)
  case (JArr xs)
  then show ?case by (simp add: list_all_iff map_idI)
next
  case (JObj kvs)
  have "map_prod toCamelCase transformToCamelCase (map_prod toSnakeCase transformToSnakeCase kv)
        = kv" if "kv \<in> set kvs" for kv
  proof (cases kv)
    case (Pair k v)
    then have "canonicalKey k" and "allKeys canonicalKey v"
      using that JObj.prems by (auto simp: list_all_iff)
    then show ?thesis
      using that Pair JObj.IH[of kv v] by (simp add: camel_snake_key)
  qed
  then show ?case by (simp add: map_idI)
qed simp_all

lemma snake_after_camel: "persisted x \<Longrightarrow> transformToSnakeCase (transformToCamelCase x) = x"
  unfolding persisted_def
proof (induction x)
  case (JArr xs)
  then show ?case by (simp add: list_all_iff map_idI)
next
  case (JObj kvs)
  have "map_prod toSnakeCase transformToSnakeCase (map_prod toCamelCase transformToCamelCase kv)
        = kv" if "kv \<in> set kvs" for kv
  proof (cases kv)
    case (Pair k v)
    then have "persistedKey k" and "allKeys persistedKey v"
      using that JObj.prems by (auto simp: list_all_iff)
    then show ?thesis
      using that Pair JObj.IH[of kv v] by (simp add: snake_camel_key)
  qed
  then show ?case by (simp add: map_idI)
qed simp_all

section \<open>Naming transform: round trip and idempotence\<close>

text \<open>
  C3. For every canonical record \<open>x\<close>, converting to persisted form and back gives \<open>x\<close>;
  for every persisted record \<open>p\<close> (all of whose keys are snake-cased, as the keys of
  the schema are), converting to canonical form and back gives \<open>p\<close>. Both transforms
  are total functions, and they keep the number and order of the properties.
\<close>

theorem naming_round_trip:
  "(canonical x \<longrightarrow> transformToCamelCase (transformToSnakeCase x) = x)
   \<and> (persisted p \<longrightarrow> transformToSnakeCase (transformToCamelCase p) = p)"
  by (simp add: camel_after_snake snake_after_camel)

theorem naming_round_trip_witness:
  "canonical (JArr [assignment committedView])
   \<and> transformToCamelCase (transformToSnakeCase (JArr [assignment committedView]))
       = JArr [assignment committedView]
   \<and> persisted (JArr [JObj batchRowA, JObj assignmentRow])
   \<and> transformToSnakeCase (transformToCamelCase (JArr [JObj batchRowA, JObj assignmentRow]))
       = JArr [JObj batchRowA, JObj assignmentRow]"
proof -
  have c: "canonical (JArr [assignment committedView])"
    by code_simp
  have p: "persisted (JArr [JObj batchRowA, JObj assignmentRow])"
    by code_simp
  show ?thesis
    using naming_round_trip[of "JArr [assignment committedView]"
                               "JArr [JObj batchRowA, JObj assignmentRow]"] c p
    by blast
qed

lemma editCriteria_commits:
  assumes "error (single sb (criteriaUpdate (assignment st) gc now)) = None"
  shows "assignment (fst (editCriteria sb gc now st))
         = transformToCamelCase (nullable (data (single sb (criteriaUpdate (assignment st) gc now))))"
  using assms
  by (simp add: editCriteria_def EditGradingCriteriaDialog_handleSubmit_def Let_def
        handleAssignmentUpdated_def transformToCamelCase_idem)

text \<open>
  C10. \<open>transformToCamelCase\<close> is idempotent, and a record that is already canonical is
  returned unchanged. Hence the assignment that the page commits after a successful
  criteria edit, where the dialog converts the row it read back and the page's listener
  converts it again, is the row converted once.
\<close>

theorem transformToCamelCase_idempotent:
  "transformToCamelCase (transformToCamelCase x) = transformToCamelCase x
   \<and> (canonical x \<longrightarrow> transformToCamelCase x = x)
   \<and> (error (single sb (criteriaUpdate (assignment st) gc now)) = None \<longrightarrow>
        assignment (fst (editCriteria sb gc now st))
        = transformToCamelCase
            (nullable (data (single sb (criteriaUpdate (assignment st) gc now)))))"
  by (simp add: transformToCamelCase_idem transformToCamelCase_canonical editCriteria_commits)

theorem transformToCamelCase_idempotent_witness:
  "canonical (assignment committedView)
   \<and> transformToCamelCase (assignment committedView) = assignment committedView
   \<and> error (single (answers (ok assignmentRow) (ok []))
              (criteriaUpdate (assignment committedView) ''Rubric'' ''2025-03-06T10:00:00.000Z''))
       = None
   \<and> assignment (fst (editCriteria (answers (ok assignmentRow) (ok []))
                         ''Rubric'' ''2025-03-06T10:00:00.000Z'' committedView))
       = transformToCamelCase (JObj assignmentRow)"
proof -
  have c: "canonical (assignment committedView)"
    by code_simp
  have e: "error (single (answers (ok assignmentRow) (ok []))
              (criteriaUpdate (assignment committedView) ''Rubric'' ''2025-03-06T10:00:00.000Z''))
           = None"
    by (simp add: answers_def ok_def)
  have d: "nullable (data (single (answers (ok assignmentRow) (ok []))
              (criteriaUpdate (assignment committedView) ''Rubric'' ''2025-03-06T10:00:00.000Z'')))
           = JObj assignmentRow"
    by (simp add: answers_def ok_def nullable_def)
  show ?thesis
    using transformToCamelCase_idempotent[of "assignment committedView"
            "answers (ok assignmentRow) (ok [])" committedView
            "''Rubric''" "''2025-03-06T10:00:00.000Z''"] c e d
    by simp
qed

section \<open>Payloads\<close>

lemma snake_keys:
  "toSnakeCase ''assignment_id'' = ''assignment_id''"
  "toSnakeCase ''batch_name'' = ''batch_name''"
  "toSnakeCase ''file_count'' = ''file_count''"
  "toSnakeCase ''status'' = ''status''"
  "toSnakeCase ''grading_criteria'' = ''grading_criteria''"
  "toSnakeCase ''updated_at'' = ''updated_at''"
  by code_simp+

lemma camel_keys:
  "toCamelCase ''id'' = ''id''"
  "toCamelCase ''created_at'' = ''createdAt''"
  "toCamelCase ''assignment_id'' = ''assignmentId''"
  "toCamelCase ''batch_name'' = ''batchName''"
  "toCamelCase ''file_count'' = ''fileCount''"
  "toCamelCase ''status'' = ''status''"
  by code_simp+

lemma submissionData_eq:
  "submissionData aid files nm =
     JObj [(''assignment_id'', JStr aid), (''batch_name'', JStr nm),
           (''file_count'', JNum (int (length files))), (''status'', JStr ''grading'')]"
  unfolding submissionData_def by (simp add: snake_keys del: toSnakeCase.simps)

lemma criteriaData_eq:
  "criteriaData gc now = JObj [(''grading_criteria'', JStr gc), (''updated_at'', JStr now)]"
  unfolding criteriaData_def by (simp add: snake_keys del: toSnakeCase.simps)

lemma map_of_assign: "map_of (assign k v r) = (map_of r)(k \<mapsto> v)"
  by (induction r) (auto simp: fun_eq_iff)

lemma map_of_patch:
  "map_of (foldl (\<lambda>acc (k, v). assign k v acc) r kvs) = map_of r ++ map_of (rev kvs)"
proof (induction kvs arbitrary: r)
  case Nil
  show ?case by simp
next
  case (Cons kv kvs)
  obtain k v where kv: "kv = (k, v)" by (cases kv)
  have "map_of (foldl (\<lambda>acc (k, v). assign k v acc) r (kv # kvs))
        = map_of (assign k v r) ++ map_of (rev kvs)"
    using Cons.IH[of "assign k v r"] kv by simp
  also have "\<dots> = map_of r ++ map_of (rev (kv # kvs))"
    by (simp add: map_of_assign kv fun_eq_iff map_add_def split: option.splits)
  finally show ?case .
qed

lemma getProp_patchRow:
  "getProp (JObj (patchRow (JObj kvs) r)) k =
     (case map_of (rev kvs) k of Some v \<Rightarrow> v | None \<Rightarrow> getProp (JObj r) k)"
  by (simp add: patchRow_def map_of_patch map_add_def split: option.splits)


section \<open>Assignment page: refresh\<close>

lemma fetch_batches_failed:
  assumes "error (single sb (assignmentQuery aid)) = None"
    and "data (single sb (assignmentQuery aid)) = Some d"
    and "error (many sb (submissionsQuery aid)) = Some e"
  shows "fetchAssignmentData sb cid aid n1 n2 st =
           fetchFailed cid e (st\<lparr>assignment := withDates n1 n2 (transformToCamelCase (JObj d))\<rparr>)
             [Request (assignmentQuery aid), Request (submissionsQuery aid)]"
  using assms by (simp add: fetchAssignmentData_def Let_def)

lemma fetch_succeeded:
  assumes "error (single sb (assignmentQuery aid)) = None"
    and "data (single sb (assignmentQuery aid)) = Some d"
    and "error (many sb (submissionsQuery aid)) = None"
    and "data (many sb (submissionsQuery aid)) = Some rows"
  shows "fetchAssignmentData sb cid aid n1 n2 st =
           (st\<lparr>assignment := withDates n1 n2 (transformToCamelCase (JObj d)),
               submissions := map (\<lambda>r. toBatch (transformToCamelCase (JObj r))) rows,
               loading := False\<rparr>,
            [Request (assignmentQuery aid), Request (submissionsQuery aid)])"
  using assms by (simp add: fetchAssignmentData_def Let_def)

text \<open>
  C1, as the code has it. When the assignment fetch succeeds and the batch fetch fails,
  the batch list is retained, but the assignment record is not: the newly fetched
  assignment has been committed before the batches are asked for. The failure is
  reported by one notice.
\<close>

theorem refresh_batch_failure:
  assumes "error (single sb (assignmentQuery aid)) = None"
    and "data (single sb (assignmentQuery aid)) = Some d"
    and "error (many sb (submissionsQuery aid)) = Some e"
  shows "submissions (fst (fetchAssignmentData sb cid aid n1 n2 st)) = submissions st
       \<and> assignment (fst (fetchAssignmentData sb cid aid n1 n2 st))
           = withDates n1 n2 (transformToCamelCase (JObj d))
       \<and> snd (fetchAssignmentData sb cid aid n1 n2 st)
           = [Request (assignmentQuery aid), Request (submissionsQuery aid),
              ToastError (messageOr e ''Failed to load assignment data'')]
             @ (if message e = ''Assignment not found''
                then [Navigate (''/dashboard/classes/'' @ cid)] else [])"
  by (simp add: fetch_batches_failed[OF assms] fetchFailed_def)

theorem refresh_batch_failure_witness:
  "submissions (fst (fetchAssignmentData (answers (ok assignmentRow) (failed ''connection lost''))
       ''c1'' ''a1'' ''2025-03-06T10:00:00.000Z'' ''2025-03-06T10:00:00.001Z'' committedView))
     = submissions committedView
   \<and> assignment (fst (fetchAssignmentData (answers (ok assignmentRow) (failed ''connection lost''))
       ''c1'' ''a1'' ''2025-03-06T10:00:00.000Z'' ''2025-03-06T10:00:00.001Z'' committedView))
     = withDates ''2025-03-06T10:00:00.000Z'' ''2025-03-06T10:00:00.001Z''
         (transformToCamelCase (JObj assignmentRow))
   \<and> snd (fetchAssignmentData (answers (ok assignmentRow) (failed ''connection lost''))
       ''c1'' ''a1'' ''2025-03-06T10:00:00.000Z'' ''2025-03-06T10:00:00.001Z'' committedView)
     = [Request (assignmentQuery ''a1''), Request (submissionsQuery ''a1''),
        ToastError ''connection lost'']"
proof -
  let ?sb = "answers (ok assignmentRow) (failed ''connection lost'')"
  have 1: "error (single ?sb (assignmentQuery ''a1'')) = None"
    by (simp add: answers_def ok_def)
  have 2: "data (single ?sb (assignmentQuery ''a1'')) = Some assignmentRow"
    by (simp add: answers_def ok_def)
  have 3: "error (many ?sb (submissionsQuery ''a1'')) = Some (Error ''connection lost'')"
    by (simp add: answers_def failed_def)
  show ?thesis
    using refresh_batch_failure[OF 1 2 3, of "''c1''" "''2025-03-06T10:00:00.000Z''"
            "''2025-03-06T10:00:00.001Z''" committedView]
    by (simp add: messageOr_def)
qed

text \<open>
  C1 as stated fails: on the page of the example, whose batch fetch fails after the
  assignment fetch has succeeded, the assignment shown afterwards is the new one, next
  to the old batch list.
\<close>

theorem refresh_half_updated_counterexample:
  "error (single (answers (ok assignmentRow) (failed ''connection lost'')) (assignmentQuery ''a1''))
     = None
   \<and> error (many (answers (ok assignmentRow) (failed ''connection lost'')) (submissionsQuery ''a1''))
     \<noteq> None
   \<and> assignment (fst (fetchAssignmentData (answers (ok assignmentRow) (failed ''connection lost''))
       ''c1'' ''a1'' ''2025-03-06T10:00:00.000Z'' ''2025-03-06T10:00:00.001Z'' committedView))
     \<noteq> assignment committedView
   \<and> getProp (assignment (fst (fetchAssignmentData
         (answers (ok assignmentRow) (failed ''connection lost''))
         ''c1'' ''a1'' ''2025-03-06T10:00:00.000Z'' ''2025-03-06T10:00:00.001Z'' committedView)))
       ''title'' = JStr ''Essay 2''
   \<and> getProp (assignment committedView) ''title'' = JStr ''Essay 1''
   \<and> submissions (fst (fetchAssignmentData (answers (ok assignmentRow) (failed ''connection lost''))
       ''c1'' ''a1'' ''2025-03-06T10:00:00.000Z'' ''2025-03-06T10:00:00.001Z'' committedView))
     = submissions committedView"
  by code_simp

section \<open>Assignment page: upload\<close>

lemma submit_failed:
  assumes "error (single sb (InsertSingle ''submissions'' (submissionData aid files nm))) = Some e"
  shows "handleSubmitFiles sb aid files nm st =
           (st, [Request (InsertSingle ''submissions'' (submissionData aid files nm)),
                 ToastError (messageOr e ''Failed to upload files'')])"
  using assms by (simp add: handleSubmitFiles_def Let_def)

lemma submit_succeeded:
  assumes "error (single sb (InsertSingle ''submissions'' (submissionData aid files nm))) = None"
    and "data (single sb (InsertSingle ''submissions'' (submissionData aid files nm))) = Some r"
  shows "handleSubmitFiles sb aid files nm st =
           (st\<lparr>submissions := toBatch (transformToCamelCase (JObj r)) # submissions st,
               showUploadForm := False\<rparr>,
            [Request (InsertSingle ''submissions'' (submissionData aid files nm)),
             ToastSuccess ''Files uploaded successfully''])"
  using assms by (simp add: handleSubmitFiles_def Let_def)

lemma submit_requests:
  "requests (snd (handleSubmitFiles sb aid files nm st))
     = [InsertSingle ''submissions'' (submissionData aid files nm)]"
  by (simp add: handleSubmitFiles_def Let_def split: option.splits)

text \<open>
  C2, as the code has it. \<open>handleSubmitFiles\<close> does not look at the number of files:
  for an empty file list it sends the insert, with a file count of 0. The batch list is
  unchanged when the persistence boundary reports an error (which is shown as a
  notice); when the insert succeeds, the row read back is put at the head of the list.
\<close>

theorem empty_upload_is_sent:
  assumes "files = []"
  shows "requests (snd (handleSubmitFiles sb aid files nm st))
     = [InsertSingle ''submissions''
          (JObj [(''assignment_id'', JStr aid), (''batch_name'', JStr nm),
                 (''file_count'', JNum 0), (''status'', JStr ''grading'')])]
   \<and> (error (single sb (InsertSingle ''submissions'' (submissionData aid files nm))) = Some e \<longrightarrow>
        submissions (fst (handleSubmitFiles sb aid files nm st)) = submissions st
        \<and> ToastError (messageOr e ''Failed to upload files'')
            \<in> set (snd (handleSubmitFiles sb aid files nm st)))
   \<and> (error (single sb (InsertSingle ''submissions'' (submissionData aid files nm))) = None
        \<and> data (single sb (InsertSingle ''submissions'' (submissionData aid files nm))) = Some r \<longrightarrow>
        submissions (fst (handleSubmitFiles sb aid files nm st))
          = toBatch (transformToCamelCase (JObj r)) # submissions st)"
proof -
  have "requests (snd (handleSubmitFiles sb aid files nm st))
     = [InsertSingle ''submissions''
          (JObj [(''assignment_id'', JStr aid), (''batch_name'', JStr nm),
                 (''file_count'', JNum 0), (''status'', JStr ''grading'')])]"
    using submit_requests[of sb aid files nm st] assms by (simp add: submissionData_eq)
  moreover have "submissions (fst (handleSubmitFiles sb aid files nm st)) = submissions st
        \<and> ToastError (messageOr e ''Failed to upload files'')
            \<in> set (snd (handleSubmitFiles sb aid files nm st))"
    if "error (single sb (InsertSingle ''submissions'' (submissionData aid files nm))) = Some e"
    using submit_failed[OF that] by simp
  moreover have "submissions (fst (handleSubmitFiles sb aid files nm st))
          = toBatch (transformToCamelCase (JObj r)) # submissions st"
    if "error (single sb (InsertSingle ''submissions'' (submissionData aid files nm))) = None"
      and "data (single sb (InsertSingle ''submissions'' (submissionData aid files nm))) = Some r"
    using submit_succeeded[OF that] by simp
  ultimately show ?thesis by blast
qed

theorem empty_upload_is_sent_witness:
  "([] :: unit list) = []
   \<and> error (single (answers (failed ''row violates policy'') (ok []))
            (InsertSingle ''submissions'' (submissionData ''a1'' ([] :: unit list) ''X'')))
     = Some (Error ''row violates policy'')
   \<and> submissions (fst (handleSubmitFiles (answers (failed ''row violates policy'') (ok []))
        ''a1'' ([] :: unit list) ''X'' committedView)) = submissions committedView
   \<and> ToastError ''row violates policy''
        \<in> set (snd (handleSubmitFiles (answers (failed ''row violates policy'') (ok []))
             ''a1'' ([] :: unit list) ''X'' committedView))
   \<and> error (single (answers (ok batchRowB) (ok []))
            (InsertSingle ''submissions'' (submissionData ''a1'' ([] :: unit list) ''X''))) = None
   \<and> data (single (answers (ok batchRowB) (ok []))
            (InsertSingle ''submissions'' (submissionData ''a1'' ([] :: unit list) ''X'')))
       = Some batchRowB
   \<and> submissions (fst (handleSubmitFiles (answers (ok batchRowB) (ok []))
        ''a1'' ([] :: unit list) ''X'' committedView))
       = toBatch (transformToCamelCase (JObj batchRowB)) # submissions committedView"
proof -
  let ?bad = "answers (failed ''row violates policy'') (ok [])"
  let ?good = "answers (ok batchRowB) (ok [])"
  let ?q = "InsertSingle ''submissions'' (submissionData ''a1'' ([] :: unit list) ''X'')"
  have 0: "([] :: unit list) = []" by simp
  have 1: "error (single ?bad ?q) = Some (Error ''row violates policy'')"
    by (simp add: answers_def failed_def)
  have 2: "error (single ?good ?q) = None" "data (single ?good ?q) = Some batchRowB"
    by (simp_all add: answers_def ok_def)
  have m: "messageOr (Error ''row violates policy'') ''Failed to upload files''
           = ''row violates policy''"
    by (simp add: messageOr_def)
  have a: "submissions (fst (handleSubmitFiles ?bad ''a1'' ([] :: unit list) ''X'' committedView))
             = submissions committedView
           \<and> ToastError (messageOr (Error ''row violates policy'') ''Failed to upload files'')
               \<in> set (snd (handleSubmitFiles ?bad ''a1'' ([] :: unit list) ''X'' committedView))"
    using empty_upload_is_sent[OF 0, of ?bad "''a1''" "''X''" committedView
            "Error ''row violates policy''" batchRowB] 1
    by blast
  have b: "submissions (fst (handleSubmitFiles ?good ''a1'' ([] :: unit list) ''X'' committedView))
             = toBatch (transformToCamelCase (JObj batchRowB)) # submissions committedView"
    using empty_upload_is_sent[OF 0, of ?good "''a1''" "''X''" committedView
            "Error ''row violates policy''" batchRowB] 2
    by blast
  show ?thesis
    using a b 1 2 unfolding m by blast
qed

text \<open>
  C2 as stated fails: an upload of no file, answered by a store that inserts what it is
  sent, issues an insert, shows a success notice and adds a batch of 0 files.
\<close>

theorem empty_upload_counterexample:
  "requests (snd (handleSubmitFiles
       (answers (ok (insertRow (JStr ''b9'') (JStr ''2025-03-06T10:00:00+00:00'')
                      (submissionData ''a1'' ([] :: unit list) ''X''))) (ok []))
       ''a1'' ([] :: unit list) ''X'' committedView))
     = [InsertSingle ''submissions''
          (JObj [(''assignment_id'', JStr ''a1''), (''batch_name'', JStr ''X''),
                 (''file_count'', JNum 0), (''status'', JStr ''grading'')])]
   \<and> snd (handleSubmitFiles
       (answers (ok (insertRow (JStr ''b9'') (JStr ''2025-03-06T10:00:00+00:00'')
                      (submissionData ''a1'' ([] :: unit list) ''X''))) (ok []))
       ''a1'' ([] :: unit list) ''X'' committedView) ! 1
     = ToastSuccess ''Files uploaded successfully''
   \<and> submissions (fst (handleSubmitFiles
       (answers (ok (insertRow (JStr ''b9'') (JStr ''2025-03-06T10:00:00+00:00'')
                      (submissionData ''a1'' ([] :: unit list) ''X''))) (ok []))
       ''a1'' ([] :: unit list) ''X'' committedView))
     = \<lparr> id' = JStr ''b9'', name = JStr ''X'', uploadedAt = JStr ''2025-03-06T10:00:00+00:00'',
         status = JStr ''grading'', fileCount = JNum 0 \<rparr> # submissions committedView"
  by code_simp

section \<open>Assignment page: a new batch\<close>




section \<open>Assignment page: order of the batch list\<close>

lemma toCamelCase_inj:
  assumes "persistedKey k" and "persistedKey k'" and "toCamelCase k = toCamelCase k'"
  shows "k = k'"
proof -
  have "toSnakeCase (toCamelCase k) = toSnakeCase (toCamelCase k')"
    using assms(3) by simp
  then show ?thesis
    using assms(1,2) by (simp add: snake_camel_key)
qed

lemma map_of_transformed:
  assumes "list_all (pred_prod persistedKey (allKeys persistedKey)) r" and "persistedKey k"
  shows "map_of (map (map_prod toCamelCase transformToCamelCase) r) (toCamelCase k)
         = map_option transformToCamelCase (map_of r k)"
  using assms(1)
proof (induction r)
  case Nil
  show ?case by simp
next
  case (Cons kv r)
  obtain k' v where kv: "kv = (k', v)" by (cases kv)
  have pk: "persistedKey k'" and rest: "list_all (pred_prod persistedKey (allKeys persistedKey)) r"
    using Cons.prems kv by simp_all
  have "(toCamelCase k = toCamelCase k') = (k = k')"
    using toCamelCase_inj[OF pk assms(2)] by auto
  then show ?case
    using Cons.IH[OF rest] kv by simp
qed

lemma getProp_transformed:
  assumes "persisted (JObj r)" and "persistedKey k"
  shows "getProp (transformToCamelCase (JObj r)) (toCamelCase k)
         = transformToCamelCase (getProp (JObj r) k)"
proof -
  have "list_all (pred_prod persistedKey (allKeys persistedKey)) r"
    using assms(1) by (simp add: persisted_def)
  then show ?thesis
    using map_of_transformed[OF _ assms(2), of r] by (simp split: option.splits)
qed

lemma persisted_keys: "persistedKey ''id''" "persistedKey ''created_at''"
  by code_simp+

lemma toBatch_id:
  "persisted (JObj r) \<Longrightarrow>
     id' (toBatch (transformToCamelCase (JObj r))) = transformToCamelCase (getProp (JObj r) ''id'')"
  using getProp_transformed[of r "''id''"]
  by (simp only: toBatch_def SubmissionBatch.simps persisted_keys camel_keys)

lemma toBatch_uploadedAt:
  "persisted (JObj r) \<Longrightarrow>
     uploadedAt (toBatch (transformToCamelCase (JObj r)))
       = transformToCamelCase (getProp (JObj r) ''created_at'')"
  using getProp_transformed[of r "''created_at''"]
  by (simp only: toBatch_def SubmissionBatch.simps persisted_keys camel_keys)

text \<open>
  C5, as the code has it. The batch list is the answer of the persistence boundary to
  a query for the assignment's submissions ordered by \<open>created_at\<close> descending and by
  nothing else, converted row by row in the order of the answer: the creation times and
  identifiers shown are those of the rows, in the same order, so the list is newest
  first whenever the answer is, and batches created at the same time stay in the order
  the boundary gave them. A batch just created is put at the head of the list.
\<close>

theorem batch_list_order:
  assumes "single sb (assignmentQuery aid) = ok d"
    and "many sb (submissionsQuery aid) = ok rows"
  shows "requests (snd (fetchAssignmentData sb cid aid n1 n2 st))
           = [SelectSingle ''assignments'' ''id'' (JStr aid),
              SelectOrdered ''submissions'' ''assignment_id'' (JStr aid) ''created_at'' False]
       \<and> submissions (fst (fetchAssignmentData sb cid aid n1 n2 st))
           = map (\<lambda>r. toBatch (transformToCamelCase (JObj r))) rows
       \<and> (list_all (\<lambda>r. persisted (JObj r)) rows \<longrightarrow>
            map uploadedAt (submissions (fst (fetchAssignmentData sb cid aid n1 n2 st)))
              = map (\<lambda>r. transformToCamelCase (getProp (JObj r) ''created_at'')) rows
            \<and> map id' (submissions (fst (fetchAssignmentData sb cid aid n1 n2 st)))
              = map (\<lambda>r. transformToCamelCase (getProp (JObj r) ''id'')) rows)
       \<and> (single sb' (InsertSingle ''submissions'' (submissionData aid files nm)) = ok r \<longrightarrow>
            submissions (fst (handleSubmitFiles sb' aid files nm st'))
              = toBatch (transformToCamelCase (JObj r)) # submissions st')"
proof -
  have f: "fetchAssignmentData sb cid aid n1 n2 st =
           (st\<lparr>assignment := withDates n1 n2 (transformToCamelCase (JObj d)),
               submissions := map (\<lambda>r. toBatch (transformToCamelCase (JObj r))) rows,
               loading := False\<rparr>,
            [Request (assignmentQuery aid), Request (submissionsQuery aid)])"
    using assms by (intro fetch_succeeded) (simp_all add: ok_def)
  have 1: "requests (snd (fetchAssignmentData sb cid aid n1 n2 st))
           = [SelectSingle ''assignments'' ''id'' (JStr aid),
              SelectOrdered ''submissions'' ''assignment_id'' (JStr aid) ''created_at'' False]"
    unfolding f by (simp add: assignmentQuery_def submissionsQuery_def)
  have 2: "submissions (fst (fetchAssignmentData sb cid aid n1 n2 st))
           = map (\<lambda>r. toBatch (transformToCamelCase (JObj r))) rows"
    unfolding f by simp
  have 3: "map uploadedAt (submissions (fst (fetchAssignmentData sb cid aid n1 n2 st)))
              = map (\<lambda>r. transformToCamelCase (getProp (JObj r) ''created_at'')) rows
         \<and> map id' (submissions (fst (fetchAssignmentData sb cid aid n1 n2 st)))
              = map (\<lambda>r. transformToCamelCase (getProp (JObj r) ''id'')) rows"
    if p: "list_all (\<lambda>r. persisted (JObj r)) rows"
  proof -
    have a: "persisted (JObj r)" if "r \<in> set rows" for r
      using p that by (simp add: list_all_iff)
    show ?thesis
      unfolding 2 map_map o_def
      by (intro conjI map_cong[OF refl] toBatch_uploadedAt toBatch_id a)
  qed
  have 4: "submissions (fst (handleSubmitFiles sb' aid files nm st'))
              = toBatch (transformToCamelCase (JObj r)) # submissions st'"
    if "single sb' (InsertSingle ''submissions'' (submissionData aid files nm)) = ok r"
  proof -
    have "error (single sb' (InsertSingle ''submissions'' (submissionData aid files nm))) = None"
      and "data (single sb' (InsertSingle ''submissions'' (submissionData aid files nm))) = Some r"
      using that by (simp_all add: ok_def)
    then show ?thesis
      using submit_succeeded[of sb' aid files nm r st'] by simp
  qed
  show ?thesis
    using 1 2 3 4 by blast
qed

theorem batch_list_order_witness:
  "single (answers (ok assignmentRow) (ok [batchRowB, batchRowA, batchRowC])) (assignmentQuery ''a1'')
     = ok assignmentRow
   \<and> many (answers (ok assignmentRow) (ok [batchRowB, batchRowA, batchRowC])) (submissionsQuery ''a1'')
     = ok [batchRowB, batchRowA, batchRowC]
   \<and> list_all (\<lambda>r. persisted (JObj r)) [batchRowB, batchRowA, batchRowC]
   \<and> map uploadedAt (submissions (fst (fetchAssignmentData
         (answers (ok assignmentRow) (ok [batchRowB, batchRowA, batchRowC]))
         ''c1'' ''a1'' ''2025-03-06T10:00:00.000Z'' ''2025-03-06T10:00:00.001Z'' committedView)))
     = [JStr ''2025-03-02T10:00:00+00:00'', JStr ''2025-03-02T10:00:00+00:00'',
        JStr ''2025-03-01T08:00:00+00:00'']
   \<and> map id' (submissions (fst (fetchAssignmentData
         (answers (ok assignmentRow) (ok [batchRowB, batchRowA, batchRowC]))
         ''c1'' ''a1'' ''2025-03-06T10:00:00.000Z'' ''2025-03-06T10:00:00.001Z'' committedView)))
     = [JStr ''b'', JStr ''a'', JStr ''c'']
   \<and> single (answers (ok batchRowA) (ok [])) (InsertSingle ''submissions''
         (submissionData ''a1'' [()] ''Section A'')) = ok batchRowA
   \<and> submissions (fst (handleSubmitFiles (answers (ok batchRowA) (ok []))
         ''a1'' [()] ''Section A'' committedView))
     = toBatch (transformToCamelCase (JObj batchRowA)) # submissions committedView"
proof -
  let ?sb = "answers (ok assignmentRow) (ok [batchRowB, batchRowA, batchRowC])"
  let ?sb' = "answers (ok batchRowA) (ok [])"
  have 1: "single ?sb (assignmentQuery ''a1'') = ok assignmentRow"
    by (simp add: answers_def)
  have 2: "many ?sb (submissionsQuery ''a1'') = ok [batchRowB, batchRowA, batchRowC]"
    by (simp add: answers_def)
  have 3: "list_all (\<lambda>r. persisted (JObj r)) [batchRowB, batchRowA, batchRowC]"
    by code_simp
  have 4: "single ?sb' (InsertSingle ''submissions'' (submissionData ''a1'' [()] ''Section A''))
           = ok batchRowA"
    by (simp add: answers_def)
  have 5: "map (\<lambda>r. transformToCamelCase (getProp (JObj r) ''created_at''))
             [batchRowB, batchRowA, batchRowC]
           = [JStr ''2025-03-02T10:00:00+00:00'', JStr ''2025-03-02T10:00:00+00:00'',
              JStr ''2025-03-01T08:00:00+00:00'']"
    by code_simp
  have 6: "map (\<lambda>r. transformToCamelCase (getProp (JObj r) ''id''))
             [batchRowB, batchRowA, batchRowC] = [JStr ''b'', JStr ''a'', JStr ''c'']"
    by code_simp
  show ?thesis
    using batch_list_order[OF 1 2, of "''c1''" "''2025-03-06T10:00:00.000Z''"
            "''2025-03-06T10:00:00.001Z''" committedView ?sb' "[()]" "''Section A''" batchRowA
            committedView] 1 2 3 4
    unfolding 5 6 by blast
qed

text \<open>
  C5 as stated fails in its tiebreak: two batches created at the same time are listed
  as \<open>a, b\<close> when the boundary answers in that order and as \<open>b, a\<close> when it answers in
  the other, and both answers are ordered by creation time descending. The identifier
  does not decide the order.
\<close>

theorem tie_order_counterexample:
  "getProp (JObj batchRowA) ''created_at'' = getProp (JObj batchRowB) ''created_at''
   \<and> map id' (submissions (fst (fetchAssignmentData
         (answers (ok assignmentRow) (ok [batchRowA, batchRowB]))
         ''c1'' ''a1'' ''2025-03-06T10:00:00.000Z'' ''2025-03-06T10:00:00.001Z'' committedView)))
     = [JStr ''a'', JStr ''b'']
   \<and> map id' (submissions (fst (fetchAssignmentData
         (answers (ok assignmentRow) (ok [batchRowB, batchRowA]))
         ''c1'' ''a1'' ''2025-03-06T10:00:00.000Z'' ''2025-03-06T10:00:00.001Z'' committedView)))
     = [JStr ''b'', JStr ''a'']
   \<and> requests (snd (fetchAssignmentData
         (answers (ok assignmentRow) (ok [batchRowA, batchRowB]))
         ''c1'' ''a1'' ''2025-03-06T10:00:00.000Z'' ''2025-03-06T10:00:00.001Z'' committedView))
     = requests (snd (fetchAssignmentData
         (answers (ok assignmentRow) (ok [batchRowB, batchRowA]))
         ''c1'' ''a1'' ''2025-03-06T10:00:00.000Z'' ''2025-03-06T10:00:00.001Z'' committedView))"
  by code_simp

section \<open>Class dialog: validation\<close>

lemma zString_code:
  "zString [Min 2 m1, Max 10 m2, Regex alphanumeric m3, Trim] s =
     ((if length s < 2 then [Message m1] else []) @ (if 10 < length s then [Message m2] else [])
        @ (if alphanumeric s then [] else [Message m3]),
      trim s)"
  by simp

lemma short_title_rejected:
  assumes "length (title raw) < 3"
  shows "\<exists>issues. editClassSchema raw = Inl issues
           \<and> (''title'', Message ''Title must be at least 3 characters'') \<in> set issues"
  using assms
  by (simp add: editClassSchema_def Let_def split: prod.splits)

lemma schema_accepts:
  assumes "editClassSchema raw = Inr formData"
  shows "alphanumeric (code raw)" and "code formData = trim (code raw)"
proof -
  obtain e1 t e2 d e4 c e5 s e6 m where
    z: "zString [Min 3 ''Title must be at least 3 characters'',
                 Max 100 ''Title must be less than 100 characters'', Trim] (title raw) = (e1, t)"
       "zString [Min 10 ''Description must be at least 10 characters'',
                 Max 500 ''Description must be less than 500 characters'', Trim]
          (description raw) = (e2, d)"
       "zString [Min 2 ''Class code must be at least 2 characters'',
                 Max 10 ''Class code must be less than 10 characters'',
                 Regex alphanumeric ''Class code must be alphanumeric'', Trim] (code raw) = (e4, c)"
       "zString [Min 1 ''Schedule is required'', Trim] (schedule raw) = (e5, s)"
       "zString [Min 1 ''Term is required'', Trim] (term' raw) = (e6, m)"
    by (metis surj_pair)
  have "e4 = [] \<and> code formData = c"
    using assms unfolding editClassSchema_def Let_def z
    by (auto split: if_splits)
  moreover have "e4 = (if length (code raw) < 2
                       then [Message ''Class code must be at least 2 characters''] else [])
        @ (if 10 < length (code raw)
           then [Message ''Class code must be less than 10 characters''] else [])
        @ (if alphanumeric (code raw) then [] else [Message ''Class code must be alphanumeric''])"
    and "c = trim (code raw)"
    using z(3) unfolding zString_code by simp_all
  ultimately show "alphanumeric (code raw)" and "code formData = trim (code raw)"
    by (auto split: if_splits)
qed

lemma letter_not_space: "isUpper c \<or> isLower c \<or> isDigit c \<Longrightarrow> \<not> isSpace c"
  by (auto simp: isUpper_def isLower_def isDigit_def isSpace_def)

lemma dropWhile_none: "(\<And>c. c \<in> set xs \<Longrightarrow> \<not> P c) \<Longrightarrow> dropWhile P xs = xs"
  by (cases xs) auto

lemma trim_alphanumeric: "alphanumeric s \<Longrightarrow> trim s = s"
proof -
  assume a: "alphanumeric s"
  then have ns: "\<And>c. c \<in> set s \<Longrightarrow> \<not> isSpace c"
    using letter_not_space by (auto simp: alphanumeric_def list_all_iff)
  have 1: "dropWhile isSpace s = s"
    using ns by (rule dropWhile_none)
  have 2: "dropWhile isSpace (rev s) = rev s"
    using ns by (intro dropWhile_none) simp
  show ?thesis
    by (simp add: trim_def 1 2)
qed

lemma toUpper_letter:
  "isUpper c \<or> isLower c \<or> isDigit c \<Longrightarrow> isUpper (toUpper c) \<or> isDigit (toUpper c)"
  using isUpper_toUpper[of c] by (auto simp: toUpper_def)

lemma toLower_toUpper_any: "toLower (toUpper c) = toLower c"
proof (cases "isLower c")
  case True
  then have "\<not> isUpper c" using upper_not_lower by blast
  then show ?thesis using True by (simp add: toLower_toUpper) (simp add: toLower_def)
next
  case False
  then show ?thesis by (simp add: toUpper_def)
qed

lemma form_rejected:
  "editClassSchema raw = Inl issues \<Longrightarrow>
     form_handleSubmit sb cid now raw st = ((fst st, firstPerField issues), [])"
  by (simp add: form_handleSubmit_def)

lemma form_accepted:
  "editClassSchema raw = Inr formData \<Longrightarrow>
     form_handleSubmit sb cid now raw st =
       ((fst (EditClassDialog_handleSubmit sb cid now formData), []),
        snd (EditClassDialog_handleSubmit sb cid now formData))"
  by (simp add: form_handleSubmit_def split: prod.splits)

text \<open>
  C9. A class form that fails the schema reaches nothing: the submit handler is not
  called, so the effect list is empty (no query is sent, hence the persisted record
  stays as it is, and no listener is called, hence the parent's view of the class stays
  as it is), and the dialog's \<open>loading\<close> flag is untouched. A title of length 2 is such a
  form. The schema is a function of the form's values alone.
\<close>

theorem validation_failure_reaches_nothing:
  "(editClassSchema raw = Inl issues \<longrightarrow>
      snd (form_handleSubmit sb cid now raw st) = []
      \<and> requests (snd (form_handleSubmit sb cid now raw st)) = []
      \<and> fst (fst (form_handleSubmit sb cid now raw st)) = fst st)
   \<and> (length (title raw) < 3 \<longrightarrow>
        (\<exists>issues. editClassSchema raw = Inl issues
           \<and> (''title'', Message ''Title must be at least 3 characters'') \<in> set issues)
        \<and> snd (form_handleSubmit sb cid now raw st) = [])"
proof -
  have "snd (form_handleSubmit sb cid now raw st) = []" if "length (title raw) < 3"
    using short_title_rejected[OF that] form_rejected[of raw _ sb cid now st] by auto
  then show ?thesis
    using short_title_rejected[of raw] by (auto simp: form_rejected)
qed

theorem validation_failure_reaches_nothing_witness:
  "editClassSchema (classForm\<lparr>title := ''ab'', code := []\<rparr>)
     = Inl [(''title'', Message ''Title must be at least 3 characters''),
            (''code'', Message ''Class code must be at least 2 characters''),
            (''code'', Message ''Class code must be alphanumeric'')]
   \<and> length (title (classForm\<lparr>title := ''ab'', code := []\<rparr>)) < 3
   \<and> snd (form_handleSubmit (answers (ok classRow) (ok [])) (JStr ''k1'')
        ''2025-03-06T10:00:00.000Z'' (classForm\<lparr>title := ''ab'', code := []\<rparr>) (False, [])) = []
   \<and> requests (snd (form_handleSubmit (answers (ok classRow) (ok [])) (JStr ''k1'')
        ''2025-03-06T10:00:00.000Z'' (classForm\<lparr>title := ''ab'', code := []\<rparr>) (False, []))) = []
   \<and> fst (fst (form_handleSubmit (answers (ok classRow) (ok [])) (JStr ''k1'')
        ''2025-03-06T10:00:00.000Z'' (classForm\<lparr>title := ''ab'', code := []\<rparr>) (False, [])))
     = False"
proof -
  have 1: "editClassSchema (classForm\<lparr>title := ''ab'', code := []\<rparr>)
     = Inl [(''title'', Message ''Title must be at least 3 characters''),
            (''code'', Message ''Class code must be at least 2 characters''),
            (''code'', Message ''Class code must be alphanumeric'')]"
    by code_simp
  have 2: "length (title (classForm\<lparr>title := ''ab'', code := []\<rparr>)) < 3"
    by simp
  show ?thesis
    using validation_failure_reaches_nothing[of "classForm\<lparr>title := ''ab'', code := []\<rparr>"
            "[(''title'', Message ''Title must be at least 3 characters''),
              (''code'', Message ''Class code must be at least 2 characters''),
              (''code'', Message ''Class code must be alphanumeric'')]"
            "answers (ok classRow) (ok [])" "JStr ''k1''" "''2025-03-06T10:00:00.000Z''"
            "(False, [])"] 1 2
    by simp
qed

section \<open>Class dialog: the code\<close>

lemma classData_code: "getProp (classData formData now) ''code'' = JStr (toUpperCase (code formData))"
  by (simp add: classData_def)

lemma patched_class_code:
  "getProp (JObj (patchRow (classData formData now) r)) ''code''
     = JStr (toUpperCase (code formData))"
  unfolding classData_def getProp_patchRow by simp

lemma class_requests:
  "requests (snd (EditClassDialog_handleSubmit sb cid now formData))
     = [classUpdate cid formData now]"
  by (simp add: EditClassDialog_handleSubmit_def Let_def split: option.splits)

lemma class_succeeded:
  assumes "error (single sb (classUpdate cid formData now)) = None"
  shows "snd (EditClassDialog_handleSubmit sb cid now formData) =
           [Request (classUpdate cid formData now),
            ClassUpdated (nullable (data (single sb (classUpdate cid formData now)))),
            ToastSuccess ''Class updated successfully!'',
            OpenChange False]"
  using assms by (simp add: EditClassDialog_handleSubmit_def Let_def)

text \<open>
  C4. For a class form that passes the schema, whatever the case of the letters of its
  code, the update sent carries the code in upper case: the same letters and digits, no
  lower-case letter among them. The row that the partial update leaves in the store
  holds that value, and it is that value the listener is given back when the boundary
  answers with the updated row.
\<close>

theorem class_code_upper_cased:
  assumes "editClassSchema raw = Inr formData"
  shows "requests (snd (form_handleSubmit sb cid now raw st))
           = [UpdateSingle ''classes'' (classData formData now) ''id'' cid]
       \<and> getProp (classData formData now) ''code'' = JStr (toUpperCase (code raw))
       \<and> list_all (\<lambda>c. isUpper c \<or> isDigit c) (toUpperCase (code raw))
       \<and> map toLower (toUpperCase (code raw)) = map toLower (code raw)
       \<and> getProp (JObj (patchRow (classData formData now) r)) ''code''
           = JStr (toUpperCase (code raw))
       \<and> (single sb (classUpdate cid formData now) = ok (patchRow (classData formData now) r) \<longrightarrow>
            snd (form_handleSubmit sb cid now raw st) ! 1
              = ClassUpdated (JObj (patchRow (classData formData now) r)))"
proof -
  have a: "alphanumeric (code raw)" and c: "code formData = code raw"
    using schema_accepts[OF assms] trim_alphanumeric by simp_all
  have 1: "requests (snd (form_handleSubmit sb cid now raw st))
           = [UpdateSingle ''classes'' (classData formData now) ''id'' cid]"
    by (simp add: form_accepted[OF assms] class_requests classUpdate_def)
  have 2: "list_all (\<lambda>c. isUpper c \<or> isDigit c) (toUpperCase (code raw))"
    using a toUpper_letter by (auto simp: alphanumeric_def toUpperCase_def list_all_iff)
  have 3: "map toLower (toUpperCase (code raw)) = map toLower (code raw)"
    by (simp add: toUpperCase_def toLower_toUpper_any)
  have 4: "snd (form_handleSubmit sb cid now raw st) ! 1
              = ClassUpdated (JObj (patchRow (classData formData now) r))"
    if "single sb (classUpdate cid formData now) = ok (patchRow (classData formData now) r)"
  proof -
    have "error (single sb (classUpdate cid formData now)) = None"
      and "data (single sb (classUpdate cid formData now))
           = Some (patchRow (classData formData now) r)"
      using that by (simp_all add: ok_def)
    then show ?thesis
      by (simp add: form_accepted[OF assms] class_succeeded nullable_def)
  qed
  show ?thesis
    using 1 2 3 4 classData_code[of formData now] patched_class_code[of formData now r] c
    by simp
qed

theorem class_code_upper_cased_witness:
  "editClassSchema classForm = Inr classForm
   \<and> code classForm = ''cs101''
   \<and> requests (snd (form_handleSubmit
        (answers (ok (patchRow (classData classForm ''2025-03-06T10:00:00.000Z'') classRow)) (ok []))
        (JStr ''k1'') ''2025-03-06T10:00:00.000Z'' classForm (False, [])))
     = [UpdateSingle ''classes'' (classData classForm ''2025-03-06T10:00:00.000Z'') ''id''
          (JStr ''k1'')]
   \<and> getProp (classData classForm ''2025-03-06T10:00:00.000Z'') ''code'' = JStr ''CS101''
   \<and> getProp (JObj (patchRow (classData classForm ''2025-03-06T10:00:00.000Z'') classRow)) ''code''
     = JStr ''CS101''
   \<and> snd (form_handleSubmit
        (answers (ok (patchRow (classData classForm ''2025-03-06T10:00:00.000Z'') classRow)) (ok []))
        (JStr ''k1'') ''2025-03-06T10:00:00.000Z'' classForm (False, [])) ! 1
     = ClassUpdated (JObj (patchRow (classData classForm ''2025-03-06T10:00:00.000Z'') classRow))"
proof -
  let ?now = "''2025-03-06T10:00:00.000Z''"
  let ?sb = "answers (ok (patchRow (classData classForm ?now) classRow)) (ok [])"
  have 1: "editClassSchema classForm = Inr classForm"
    by code_simp
  have 2: "code classForm = ''cs101''"
    by (simp add: classForm_def)
  have 3: "toUpperCase ''cs101'' = ''CS101''"
    by code_simp
  have 4: "single ?sb (classUpdate (JStr ''k1'') classForm ?now)
           = ok (patchRow (classData classForm ?now) classRow)"
    by (simp add: answers_def)
  show ?thesis
    using class_code_upper_cased[OF 1, of ?sb "JStr ''k1''" ?now "(False, [])" classRow] 1 2 3 4
    by simp
qed

section \<open>What the update listeners receive\<close>

lemma criteria_succeeded:
  assumes "error (single sb (criteriaUpdate a gc now)) = None"
  shows "snd (EditGradingCriteriaDialog_handleSubmit sb a gc now) =
           [Request (criteriaUpdate a gc now),
            AssignmentUpdated
              (transformToCamelCase (nullable (data (single sb (criteriaUpdate a gc now))))),
            OpenChange False,
            ToastSuccess ''Grading criteria updated successfully'']"
  using assms by (simp add: EditGradingCriteriaDialog_handleSubmit_def Let_def)

lemma criteria_requests:
  "requests (snd (EditGradingCriteriaDialog_handleSubmit sb a gc now)) = [criteriaUpdate a gc now]"
  by (simp add: EditGradingCriteriaDialog_handleSubmit_def Let_def split: option.splits)

text \<open>
  C6, as the code has it. After a successful criteria edit the listener receives the
  row read back, converted to canonical form; the criteria text is sent as typed,
  without validation or normalisation. After a successful class edit (validated,
  trimmed, code upper-cased) the listener receives the row read back as it is, in
  persisted form: the class dialog applies no naming transform.
\<close>

theorem listeners_receive:
  "(error (single sb (criteriaUpdate a gc now)) = None \<longrightarrow>
      snd (EditGradingCriteriaDialog_handleSubmit sb a gc now) =
        [Request (UpdateSingle ''assignments''
                    (JObj [(''grading_criteria'', JStr gc), (''updated_at'', JStr now)])
                    ''id'' (getProp a ''id'')),
         AssignmentUpdated
           (transformToCamelCase (nullable (data (single sb (criteriaUpdate a gc now))))),
         OpenChange False,
         ToastSuccess ''Grading criteria updated successfully''])
   \<and> (editClassSchema raw = Inr formData
        \<and> error (single sb' (classUpdate cid formData now')) = None \<longrightarrow>
      snd (form_handleSubmit sb' cid now' raw st) =
        [Request (UpdateSingle ''classes'' (classData formData now') ''id'' cid),
         ClassUpdated (nullable (data (single sb' (classUpdate cid formData now')))),
         ToastSuccess ''Class updated successfully!'',
         OpenChange False])"
proof -
  have "snd (EditGradingCriteriaDialog_handleSubmit sb a gc now) =
        [Request (UpdateSingle ''assignments''
                    (JObj [(''grading_criteria'', JStr gc), (''updated_at'', JStr now)])
                    ''id'' (getProp a ''id'')),
         AssignmentUpdated
           (transformToCamelCase (nullable (data (single sb (criteriaUpdate a gc now))))),
         OpenChange False,
         ToastSuccess ''Grading criteria updated successfully'']"
    if "error (single sb (criteriaUpdate a gc now)) = None"
    unfolding criteria_succeeded[OF that]
    by (simp only: criteriaUpdate_def criteriaData_eq)
  moreover have "snd (form_handleSubmit sb' cid now' raw st) =
        [Request (UpdateSingle ''classes'' (classData formData now') ''id'' cid),
         ClassUpdated (nullable (data (single sb' (classUpdate cid formData now')))),
         ToastSuccess ''Class updated successfully!'',
         OpenChange False]"
    if "editClassSchema raw = Inr formData"
      and "error (single sb' (classUpdate cid formData now')) = None"
    using that by (simp add: form_accepted class_succeeded) (simp add: classUpdate_def)
  ultimately show ?thesis by blast
qed

theorem listeners_receive_witness:
  "error (single (answers (ok assignmentRow) (ok []))
            (criteriaUpdate (assignment committedView) ''Rubric'' ''2025-03-06T10:00:00.000Z''))
     = None
   \<and> snd (EditGradingCriteriaDialog_handleSubmit (answers (ok assignmentRow) (ok []))
            (assignment committedView) ''Rubric'' ''2025-03-06T10:00:00.000Z'') ! 1
     = AssignmentUpdated (transformToCamelCase (JObj assignmentRow))
   \<and> editClassSchema classForm = Inr classForm
   \<and> error (single (answers (ok classRow) (ok []))
            (classUpdate (JStr ''k1'') classForm ''2025-03-06T10:00:00.000Z'')) = None
   \<and> snd (form_handleSubmit (answers (ok classRow) (ok [])) (JStr ''k1'')
            ''2025-03-06T10:00:00.000Z'' classForm (False, [])) ! 1
     = ClassUpdated (JObj classRow)"
proof -
  let ?now = "''2025-03-06T10:00:00.000Z''"
  let ?sb = "answers (ok assignmentRow) (ok [])"
  let ?sb' = "answers (ok classRow) (ok [])"
  have 1: "error (single ?sb (criteriaUpdate (assignment committedView) ''Rubric'' ?now)) = None"
    by (simp add: answers_def ok_def)
  have 2: "nullable (data (single ?sb (criteriaUpdate (assignment committedView) ''Rubric'' ?now)))
           = JObj assignmentRow"
    by (simp add: answers_def ok_def nullable_def)
  have 3: "editClassSchema classForm = Inr classForm"
    by code_simp
  have 4: "error (single ?sb' (classUpdate (JStr ''k1'') classForm ?now)) = None"
    by (simp add: answers_def ok_def)
  have 5: "nullable (data (single ?sb' (classUpdate (JStr ''k1'') classForm ?now))) = JObj classRow"
    by (simp add: answers_def ok_def nullable_def)
  have a: "snd (EditGradingCriteriaDialog_handleSubmit ?sb (assignment committedView) ''Rubric'' ?now) ! 1
           = AssignmentUpdated (transformToCamelCase (JObj assignmentRow))"
    using listeners_receive[of ?sb "assignment committedView" "''Rubric''" ?now classForm classForm
            ?sb' "JStr ''k1''" ?now "(False, [])"] 1
    unfolding 2 by simp
  have b: "snd (form_handleSubmit ?sb' (JStr ''k1'') ?now classForm (False, [])) ! 1
           = ClassUpdated (JObj classRow)"
    using listeners_receive[of ?sb "assignment committedView" "''Rubric''" ?now classForm classForm
            ?sb' "JStr ''k1''" ?now "(False, [])"] 3 4
    unfolding 5 by simp
  show ?thesis
    using a b 1 3 4 by blast
qed

text \<open>
  C6 as stated fails for the class edit: the listener is given the row read back with
  its snake-cased keys (\<open>updated_at\<close>, \<open>created_at\<close>, \<open>user_id\<close>), which is not its
  canonical form.
\<close>

theorem class_listener_counterexample:
  "editClassSchema classForm = Inr classForm
   \<and> error (single (answers (ok classRow) (ok []))
            (classUpdate (JStr ''k1'') classForm ''2025-03-06T10:00:00.000Z'')) = None
   \<and> snd (form_handleSubmit (answers (ok classRow) (ok [])) (JStr ''k1'')
            ''2025-03-06T10:00:00.000Z'' classForm (False, [])) ! 1
     = ClassUpdated (JObj classRow)
   \<and> JObj classRow \<noteq> transformToCamelCase (JObj classRow)
   \<and> getProp (JObj classRow) ''updatedAt'' = JUndefined
   \<and> getProp (transformToCamelCase (JObj classRow)) ''updatedAt''
     = JStr ''2025-01-10T09:00:00+00:00''"
  by code_simp

section \<open>Criteria edit: what is written\<close>

lemma requests_append: "requests (xs @ ys) = requests xs @ requests ys"
  by (induction xs rule: requests.induct) simp_all

lemma fetch_writes_nothing:
  "q \<in> set (requests (snd (fetchAssignmentData sb cid aid n1 n2 st))) \<Longrightarrow> writes q = None"
  by (auto simp: fetchAssignmentData_def fetchFailed_def Let_def requests_append
        assignmentQuery_def submissionsQuery_def split: option.splits if_splits)

lemma assignment_keys:
  "toSnakeCase ''title'' = ''title''"
  "toSnakeCase ''description'' = ''description''"
  "toSnakeCase ''type'' = ''type''"
  "toSnakeCase ''points'' = ''points''"
  "toSnakeCase ''updatedAt'' = ''updated_at''"
  by code_simp+

lemma assignmentData_eq:
  "assignmentData patch now =
     JObj [(''title'', JStr (trim (patchTitle patch))),
           (''description'', JStr (trim (patchDescription patch))),
           (''type'', JStr (patchType patch)),
           (''points'', JNum (patchPoints patch)),
           (''updated_at'', JStr now)]"
  unfolding assignmentData_def by (simp add: assignment_keys del: toSnakeCase.simps)

lemma updateAssignment_requests:
  "set (requests (snd (updateAssignment sb idv patch now)))
     \<subseteq> {UpdateSingle ''assignments'' (assignmentData patch now) ''id'' idv}"
  by (simp add: updateAssignment_def Let_def split: option.splits)

text \<open>
  C7. The criteria edit sends one update, to the row of \<open>assignments\<close> with the
  assignment's identifier, and its payload has exactly the two fields
  \<open>grading_criteria\<close> and \<open>updated_at\<close>, the latter being the time of the submission.
  Applied as a partial update it sets these two fields and leaves every other field of
  the row as it was. No other operation changes the grading criteria: loading and
  refreshing only read, an upload writes to \<open>submissions\<close> and a class edit to
  \<open>classes\<close>, and the general assignment edit, the only other writer of \<open>assignments\<close>,
  sends the title, description, type, points and update time, which as a partial update
  leave the grading criteria of the row as they were.
\<close>

theorem criteria_update_frame:
  "requests (snd (EditGradingCriteriaDialog_handleSubmit sb a gc now))
     = [UpdateSingle ''assignments''
          (JObj [(''grading_criteria'', JStr gc), (''updated_at'', JStr now)])
          ''id'' (getProp a ''id'')]
   \<and> getProp (JObj (patchRow (criteriaData gc now) r)) ''grading_criteria'' = JStr gc
   \<and> getProp (JObj (patchRow (criteriaData gc now) r)) ''updated_at'' = JStr now
   \<and> (k \<noteq> ''grading_criteria'' \<and> k \<noteq> ''updated_at'' \<longrightarrow>
        getProp (JObj (patchRow (criteriaData gc now) r)) k = getProp (JObj r) k)
   \<and> (\<forall>q \<in> set (requests (snd (fetchAssignmentData sb1 cid aid n1 n2 st))). writes q = None)
   \<and> (\<forall>q \<in> set (requests (snd (handleRefresh sb1 cid aid n1 n2 st))). writes q = None)
   \<and> (\<forall>q \<in> set (requests (snd (handleSubmitFiles sb2 aid' files nm st'))).
        writes q = Some ''submissions'')
   \<and> (\<forall>q \<in> set (requests (snd (form_handleSubmit sb3 kid now' raw fs))).
        writes q = Some ''classes'')
   \<and> (\<forall>q \<in> set (requests (snd (updateAssignment sb4 idv patch now''))).
        q = UpdateSingle ''assignments''
              (JObj [(''title'', JStr (trim (patchTitle patch))),
                     (''description'', JStr (trim (patchDescription patch))),
                     (''type'', JStr (patchType patch)),
                     (''points'', JNum (patchPoints patch)),
                     (''updated_at'', JStr now'')])
              ''id'' idv)
   \<and> getProp (JObj (patchRow (assignmentData patch now'') r')) ''grading_criteria''
       = getProp (JObj r') ''grading_criteria''"
proof -
  have 1: "requests (snd (EditGradingCriteriaDialog_handleSubmit sb a gc now))
     = [UpdateSingle ''assignments''
          (JObj [(''grading_criteria'', JStr gc), (''updated_at'', JStr now)])
          ''id'' (getProp a ''id'')]"
    unfolding criteria_requests by (simp only: criteriaUpdate_def criteriaData_eq)
  have 2: "getProp (JObj (patchRow (criteriaData gc now) r)) ''grading_criteria'' = JStr gc"
    and 3: "getProp (JObj (patchRow (criteriaData gc now) r)) ''updated_at'' = JStr now"
    and 4: "k \<noteq> ''grading_criteria'' \<and> k \<noteq> ''updated_at'' \<longrightarrow>
        getProp (JObj (patchRow (criteriaData gc now) r)) k = getProp (JObj r) k"
    unfolding criteriaData_eq getProp_patchRow by simp_all
  have 5: "\<forall>q \<in> set (requests (snd (fetchAssignmentData sb1 cid aid n1 n2 st))). writes q = None"
    using fetch_writes_nothing by blast
  have 6: "\<forall>q \<in> set (requests (snd (handleRefresh sb1 cid aid n1 n2 st))). writes q = None"
    using fetch_writes_nothing[of _ sb1 cid aid n1 n2 "st\<lparr>refreshing := True\<rparr>"]
    by (simp add: handleRefresh_def split: prod.splits)
  have 7: "\<forall>q \<in> set (requests (snd (handleSubmitFiles sb2 aid' files nm st'))).
        writes q = Some ''submissions''"
    by (simp add: submit_requests)
  have 8: "\<forall>q \<in> set (requests (snd (form_handleSubmit sb3 kid now' raw fs))).
        writes q = Some ''classes''"
    by (cases "editClassSchema raw")
       (simp_all add: form_rejected form_accepted class_requests classUpdate_def)
  have 9: "\<forall>q \<in> set (requests (snd (updateAssignment sb4 idv patch now''))).
        q = UpdateSingle ''assignments''
              (JObj [(''title'', JStr (trim (patchTitle patch))),
                     (''description'', JStr (trim (patchDescription patch))),
                     (''type'', JStr (patchType patch)),
                     (''points'', JNum (patchPoints patch)),
                     (''updated_at'', JStr now'')])
              ''id'' idv"
    using updateAssignment_requests[of sb4 idv patch now''] unfolding assignmentData_eq by blast
  have 10: "getProp (JObj (patchRow (assignmentData patch now'') r')) ''grading_criteria''
       = getProp (JObj r') ''grading_criteria''"
    unfolding assignmentData_eq getProp_patchRow by simp
  show ?thesis
    using 1 2 3 4 5 6 7 8 9 10 by blast
qed

theorem criteria_update_frame_witness:
  "getProp (JObj (patchRow (criteriaData ''Rubric'' ''2025-03-06T10:00:00.000Z'') assignmentRow))
     ''grading_criteria'' = JStr ''Rubric''
   \<and> getProp (JObj (patchRow (criteriaData ''Rubric'' ''2025-03-06T10:00:00.000Z'') assignmentRow))
     ''updated_at'' = JStr ''2025-03-06T10:00:00.000Z''
   \<and> ''points'' \<noteq> ''grading_criteria'' \<and> ''points'' \<noteq> ''updated_at''
   \<and> getProp (JObj (patchRow (criteriaData ''Rubric'' ''2025-03-06T10:00:00.000Z'') assignmentRow))
     ''points'' = JNum 20
   \<and> requests (snd (fetchAssignmentData (answers (ok assignmentRow) (ok [batchRowA]))
        ''c1'' ''a1'' ''2025-03-06T10:00:00.000Z'' ''2025-03-06T10:00:00.001Z'' committedView))
     = [assignmentQuery ''a1'', submissionsQuery ''a1'']
   \<and> writes (assignmentQuery ''a1'') = None \<and> writes (submissionsQuery ''a1'') = None
   \<and> requests (snd (handleSubmitFiles (answers (ok batchRowA) (ok [])) ''a1'' [()] ''Section A''
        committedView))
     = [InsertSingle ''submissions'' (submissionData ''a1'' [()] ''Section A'')]
   \<and> requests (snd (form_handleSubmit (answers (ok classRow) (ok [])) (JStr ''k1'')
        ''2025-03-06T10:00:00.000Z'' classForm (False, [])))
     = [classUpdate (JStr ''k1'') classForm ''2025-03-06T10:00:00.000Z'']
   \<and> writes (classUpdate (JStr ''k1'') classForm ''2025-03-06T10:00:00.000Z'') = Some ''classes''
   \<and> requests (snd (updateAssignment (answers (ok assignmentRow) (ok [])) (JStr ''a1'')
        assignmentPatch ''2025-03-06T10:00:00.000Z''))
     = [UpdateSingle ''assignments''
          (JObj [(''title'', JStr ''Essay 3''), (''description'', JStr ''Argue a position''),
                 (''type'', JStr ''text''), (''points'', JNum 25),
                 (''updated_at'', JStr ''2025-03-06T10:00:00.000Z'')])
          ''id'' (JStr ''a1'')]
   \<and> getProp (JObj (patchRow (assignmentData assignmentPatch ''2025-03-06T10:00:00.000Z'')
        assignmentRow)) ''grading_criteria'' = JStr ''Clarity''"
proof -
  let ?now = "''2025-03-06T10:00:00.000Z''"
  have p: "getProp (JObj assignmentRow) ''points'' = JNum 20"
    by (simp add: assignmentRow_def)
  have c0: "getProp (JObj assignmentRow) ''grading_criteria'' = JStr ''Clarity''"
    by (simp add: assignmentRow_def)
  have n: "''points'' \<noteq> ''grading_criteria'' \<and> ''points'' \<noteq> ''updated_at''"
    by simp
  have f: "requests (snd (fetchAssignmentData (answers (ok assignmentRow) (ok [batchRowA]))
        ''c1'' ''a1'' ?now ''2025-03-06T10:00:00.001Z'' committedView))
     = [assignmentQuery ''a1'', submissionsQuery ''a1'']"
    by (simp add: fetch_succeeded answers_def ok_def)
  have c: "editClassSchema classForm = Inr classForm"
    by code_simp
  have g: "requests (snd (form_handleSubmit (answers (ok classRow) (ok [])) (JStr ''k1'')
        ?now classForm (False, [])))
     = [classUpdate (JStr ''k1'') classForm ?now]"
    by (simp add: form_accepted[OF c] class_requests)
  have u: "requests (snd (updateAssignment (answers (ok assignmentRow) (ok [])) (JStr ''a1'')
        assignmentPatch ?now))
     = [UpdateSingle ''assignments''
          (JObj [(''title'', JStr ''Essay 3''), (''description'', JStr ''Argue a position''),
                 (''type'', JStr ''text''), (''points'', JNum 25),
                 (''updated_at'', JStr ?now)])
          ''id'' (JStr ''a1'')]"
    by code_simp
  have t: "getProp (JObj (patchRow (criteriaData ''Rubric'' ?now) assignmentRow)) ''grading_criteria''
             = JStr ''Rubric''
         \<and> getProp (JObj (patchRow (criteriaData ''Rubric'' ?now) assignmentRow)) ''updated_at''
             = JStr ?now
         \<and> getProp (JObj (patchRow (criteriaData ''Rubric'' ?now) assignmentRow)) ''points''
             = getProp (JObj assignmentRow) ''points''
         \<and> writes (assignmentQuery ''a1'') = None \<and> writes (submissionsQuery ''a1'') = None
         \<and> writes (classUpdate (JStr ''k1'') classForm ?now) = Some ''classes''
         \<and> getProp (JObj (patchRow (assignmentData assignmentPatch ?now) assignmentRow))
               ''grading_criteria'' = getProp (JObj assignmentRow) ''grading_criteria''"
    using criteria_update_frame[of "answers (ok assignmentRow) (ok [])" "assignment committedView"
            "''Rubric''" ?now assignmentRow "''points''"
            "answers (ok assignmentRow) (ok [batchRowA])" "''c1''" "''a1''" ?now
            "''2025-03-06T10:00:00.001Z''" committedView
            "answers (ok batchRowA) (ok [])" "''a1''" "[()]" "''Section A''" committedView
            "answers (ok classRow) (ok [])" "JStr ''k1''" ?now classForm "(False, [])"
            "answers (ok assignmentRow) (ok [])" "JStr ''a1''" assignmentPatch ?now assignmentRow]
          n f g
    by simp
  show ?thesis
    using t p c0 n f g u submit_requests[of "answers (ok batchRowA) (ok [])" "''a1''" "[()]"
                       "''Section A''" committedView]
    by simp
qed

end
